theory Spec2Isabelle
  imports Complex_Main "HOL-Library.Word"
begin

section \<open>JavaScript values\<close>

text \<open>
  The backend is \<^verbatim>\<open>backend/server.js\<close>, an Express application with two
  process-wide registries and seven request handlers. A JavaScript string is a sequence
  of UTF-16 code units: \<^verbatim>\<open>length\<close> and \<^verbatim>\<open>slice\<close> count code units, so a
  string is modelled as a list of 16-bit words. \<open>ascii\<close> embeds an ASCII literal of the
  source.
\<close>

type_synonym jschar = "16 word"
type_synonym jsstring = "jschar list"

definition ascii :: "string \<Rightarrow> jsstring" where
  "ascii s = map of_char s"

text \<open>
  The values a handler sees: what \<^verbatim>\<open>JSON.parse\<close> produces, \<^verbatim>\<open>undefined\<close>
  for a property that is not there, and a built-in function (given by its source text, which
  is what \<^verbatim>\<open>String\<close> makes of it), which is what a registry holds under a name
  inherited from \<^verbatim>\<open>Object.prototype\<close>. A number is modelled by its mathematical
  value; the handlers only copy numbers and test them for zero. An object is the list of
  its own properties (keys distinct), read with \<open>map_of\<close>.
\<close>

datatype json =
    JUndefined
  | JNull
  | JBool bool
  | JNum rat
  | JStr jsstring
  | JArr "json list"
  | JObj "(jsstring \<times> json) list"
  | JFunction jsstring

text \<open>Truthiness, as \<^verbatim>\<open>!x\<close>, \<^verbatim>\<open>x || y\<close> and \<^verbatim>\<open>if (x)\<close> test it.\<close>

fun truthy :: "json \<Rightarrow> bool" where
  "truthy JUndefined = False"
| "truthy JNull = False"
| "truthy (JBool b) = b"
| "truthy (JNum n) = (n \<noteq> 0)"
| "truthy (JStr s) = (s \<noteq> [])"
| "truthy (JArr xs) = True"
| "truthy (JObj kvs) = True"
| "truthy (JFunction src) = True"

text \<open>\<^verbatim>\<open>a || b\<close>: the left operand when it is truthy, else the right one.\<close>

definition js_or :: "json \<Rightarrow> json \<Rightarrow> json" where
  "js_or a b = (if truthy a then a else b)"

fun js_typeof :: "json \<Rightarrow> jsstring" where
  "js_typeof JUndefined = ascii ''undefined''"
| "js_typeof JNull = ascii ''object''"
| "js_typeof (JBool b) = ascii ''boolean''"
| "js_typeof (JNum n) = ascii ''number''"
| "js_typeof (JStr s) = ascii ''string''"
| "js_typeof (JArr xs) = ascii ''object''"
| "js_typeof (JObj kvs) = ascii ''object''"
| "js_typeof (JFunction src) = ascii ''function''"

text \<open>A structured value: an object or an array, the values whose \<^verbatim>\<open>typeof\<close> is
  \<^verbatim>\<open>"object"\<close> apart from \<^verbatim>\<open>null\<close>.\<close>

fun structured :: "json \<Rightarrow> bool" where
  "structured (JArr xs) = True"
| "structured (JObj kvs) = True"
| "structured v = False"

text \<open>
  \<^verbatim>\<open>v.k\<close> for a value \<open>v\<close> that is neither \<^verbatim>\<open>null\<close> nor \<^verbatim>\<open>undefined\<close>.
  The handlers read only fixed property names (\<^verbatim>\<open>text\<close>, \<^verbatim>\<open>project_name\<close>,
  \<^verbatim>\<open>items\<close>, \<^verbatim>\<open>line\<close>, ...), none of which an array, a string, a number, a
  boolean or a function has and none of which an object inherits, so the result is the
  own property of an object and \<^verbatim>\<open>undefined\<close> otherwise. The registries are read
  under arbitrary names; their reads are \<open>store_get\<close> and \<open>quotes_at\<close> below.
\<close>

fun field :: "json \<Rightarrow> jsstring \<Rightarrow> json" where
  "field (JObj kvs) k = (case map_of kvs k of None \<Rightarrow> JUndefined | Some v \<Rightarrow> v)"
| "field v k = JUndefined"

text \<open>
  \<^verbatim>\<open>const { k } = req.body || {}\<close>: the property \<open>k\<close> of the request body, of
  the empty object when the body is falsy.
\<close>

definition destructure :: "json \<Rightarrow> string \<Rightarrow> json" where
  "destructure req_body k = field (js_or req_body (JObj [])) (ascii k)"

section \<open>The two registries and the replies\<close>

text \<open>
  \<^verbatim>\<open>const rfqStore = {}\<close> holds the RFQ object under each RFQ id,
  \<^verbatim>\<open>const quoteStore = {}\<close> the array of quotes submitted for each RFQ id. The own
  properties of each are a map from strings: a key is there once it has been assigned.
\<close>

record stores =
  rfqStore :: "jsstring \<rightharpoonup> json"
  quoteStore :: "jsstring \<rightharpoonup> json list"

text \<open>
  Both registries are plain objects, so a read \<^verbatim>\<open>store[id]\<close> that finds no own
  property goes on to \<^verbatim>\<open>Object.prototype\<close>. That object has a built-in function
  under eleven names and, under \<^verbatim>\<open>__proto__\<close>, an accessor that returns
  \<^verbatim>\<open>Object.prototype\<close> itself, an object with no enumerable property; every other
  name reads as \<^verbatim>\<open>undefined\<close>.
\<close>

definition prototype_functions :: "string list" where
  "prototype_functions =
     [''constructor'', ''__defineGetter__'', ''__defineSetter__'', ''hasOwnProperty'',
      ''__lookupGetter__'', ''__lookupSetter__'', ''isPrototypeOf'', ''propertyIsEnumerable'',
      ''toString'', ''valueOf'', ''toLocaleString'']"

definition is_inherited :: "jsstring \<Rightarrow> bool" where
  "is_inherited k = (k = ascii ''__proto__'' \<or> k \<in> set (map ascii prototype_functions))"

definition native_source :: "jsstring \<Rightarrow> jsstring" where
  "native_source k =
     ascii ''function '' @ (if k = ascii ''constructor'' then ascii ''Object'' else k)
     @ ascii ''() { [native code] }''"

definition inherited :: "jsstring \<Rightarrow> json" where
  "inherited k =
    (if k = ascii ''__proto__'' then JObj []
     else if k \<in> set (map ascii prototype_functions) then JFunction (native_source k)
     else JUndefined)"

text \<open>\<^verbatim>\<open>rfqStore[id]\<close>: the own property, else the inherited one.\<close>

definition store_get :: "(jsstring \<rightharpoonup> json) \<Rightarrow> jsstring \<Rightarrow> json" where
  "store_get m rid = (case m rid of None \<Rightarrow> inherited rid | Some v \<Rightarrow> v)"

text \<open>\<^verbatim>\<open>quoteStore[id]\<close>: the own array, else the inherited property.\<close>

definition quotes_at :: "(jsstring \<rightharpoonup> json list) \<Rightarrow> jsstring \<Rightarrow> json" where
  "quotes_at m rid = (case m rid of None \<Rightarrow> inherited rid | Some qs \<Rightarrow> JArr qs)"


text \<open>
  An error value: \<open>message\<close> is \<^verbatim>\<open>err.message\<close> and \<open>rendering\<close> is
  \<^verbatim>\<open>String(err)\<close>. The errors the language itself raises are \<^verbatim>\<open>TypeError\<close>s;
  their message texts are those of V8, no handler inspects them, they are only copied into
  a reply.
\<close>

datatype jserror = JsError (message: jsstring) (rendering: jsstring)

definition type_error :: "string \<Rightarrow> jserror" where
  "type_error msg = JsError (ascii msg) (ascii (''TypeError: '' @ msg))"

text \<open>
  What a handler answers: \<^verbatim>\<open>res.status(n).json(body)\<close> (status 200 when the source
  sets none), with \<open>body\<close> the value handed to \<^verbatim>\<open>res.json\<close>, whose serialisation
  leaves out a property that holds \<^verbatim>\<open>undefined\<close> or a function. Or the handler
  writes no reply because an exception leaves it: outside every \<^verbatim>\<open>try\<close> of an
  \<^verbatim>\<open>async\<close> handler, or anywhere in a synchronous one, where the error handling of
  Express then answers with status 500.
\<close>

datatype response = Reply (status: nat) (body: json) | Unhandled jserror

definition error_body :: "string \<Rightarrow> json" where
  "error_body msg = JObj [(ascii ''error'', JStr (ascii msg))]"

section \<open>RFQ lookup and the quote ledger\<close>

text \<open>\<^verbatim>\<open>app.get("/api/rfqs/:id")\<close>.\<close>

definition get_rfq :: "jsstring \<Rightarrow> stores \<Rightarrow> response" where
  "get_rfq rid st =
    (let rfq = store_get (rfqStore st) rid in
     if \<not> truthy rfq then Reply 404 (error_body ''RFQ not found'')
     else Reply 200 rfq)"

text \<open>
  \<^verbatim>\<open>app.post("/api/rfqs/:id/quotes")\<close>. The payload test
  \<^verbatim>\<open>!quote || typeof quote !== "object"\<close> is the two tests in the order the source
  evaluates them. \<^verbatim>\<open>if (!quoteStore[id]) quoteStore[id] = []\<close> gives the id an empty
  array of its own when the read is falsy; \<^verbatim>\<open>quoteStore[id].push(quote)\<close> then
  appends to the own array, and throws when the read is not an array, which is the case
  of an inherited name.
\<close>

definition post_quote :: "jsstring \<Rightarrow> json \<Rightarrow> stores \<Rightarrow> response \<times> stores" where
  "post_quote rid req_body st =
    (let rfq = store_get (rfqStore st) rid in
     if \<not> truthy rfq then (Reply 404 (error_body ''RFQ not found''), st)
     else
       let quote = req_body in
       if \<not> truthy quote then (Reply 400 (error_body ''Invalid quote payload''), st)
       else if js_typeof quote \<noteq> ascii ''object''
         then (Reply 400 (error_body ''Invalid quote payload''), st)
       else
         let quoteStore1 =
               (if \<not> truthy (quotes_at (quoteStore st) rid) then (quoteStore st)(rid \<mapsto> [])
                else quoteStore st)
         in
         (case quotes_at quoteStore1 rid of
            JArr qs \<Rightarrow>
              (Reply 200 (JObj [(ascii ''ok'', JBool True)]),
               st\<lparr>quoteStore := quoteStore1(rid \<mapsto> qs @ [quote])\<rparr>)
          | _ \<Rightarrow>
              (Unhandled (type_error ''quoteStore[id].push is not a function''),
               st\<lparr>quoteStore := quoteStore1\<rparr>)))"

text \<open>
  \<^verbatim>\<open>app.get("/api/rfqs/:id/quotes")\<close>: \<^verbatim>\<open>quoteStore[id] || []\<close>, with no lookup
  in \<^verbatim>\<open>rfqStore\<close>.
\<close>

definition get_quotes :: "jsstring \<Rightarrow> stores \<Rightarrow> response" where
  "get_quotes rid st =
     Reply 200 (JObj [(ascii ''quotes'', js_or (quotes_at (quoteStore st) rid) (JArr []))])"

text \<open>The registries of a process that has just started.\<close>

definition empty_stores :: stores where
  "empty_stores = \<lparr>rfqStore = Map.empty, quoteStore = Map.empty\<rparr>"

section \<open>Strings\<close>

text \<open>\<^verbatim>\<open>xs.join(sep)\<close> on an array of strings.\<close>

fun js_join :: "jsstring \<Rightarrow> jsstring list \<Rightarrow> jsstring" where
  "js_join sep [] = []"
| "js_join sep [x] = x"
| "js_join sep (x # y # ys) = x @ sep @ js_join sep (y # ys)"

text \<open>
  The code units \<^verbatim>\<open>trim()\<close> strips: the ECMAScript white space and line terminators.
\<close>

definition js_space :: "jschar \<Rightarrow> bool" where
  "js_space c =
    (c \<in> {0x0009, 0x000A, 0x000B, 0x000C, 0x000D, 0x0020, 0x00A0, 0x1680, 0x2028, 0x2029,
          0x202F, 0x205F, 0x3000, 0xFEFF}
     \<or> (0x2000 \<le> c \<and> c \<le> 0x200A))"

definition js_trim :: "jsstring \<Rightarrow> jsstring" where
  "js_trim s = rev (dropWhile js_space (rev (dropWhile js_space s)))"

text \<open>
  \<^verbatim>\<open>s.split(".").pop()\<close>: the part of \<open>s\<close> after its last full stop, all of \<open>s\<close>
  when it has none.
\<close>

definition last_segment :: "jsstring \<Rightarrow> jsstring" where
  "last_segment s = rev (takeWhile (\<lambda>c. c \<noteq> 0x002E) (rev s))"

text \<open>
  The decimal digits of a natural number, and \<^verbatim>\<open>String(n)\<close> for an integer-valued
  number below \<open>10\<^sup>2\<^sup>1\<close> in absolute value, which is what \<^verbatim>\<open>Date.now()\<close> returns.
\<close>

definition digit_char :: "nat \<Rightarrow> jschar" where
  "digit_char d = of_nat (48 + d)"

fun nat_digits :: "nat \<Rightarrow> jsstring" where
  "nat_digits n =
    (if n < 10 then [digit_char n]
     else nat_digits (n div 10) @ [digit_char (n mod 10)])"

definition integer_toString :: "int \<Rightarrow> jsstring" where
  "integer_toString i =
    (if i < 0 then 0x002D # nat_digits (nat (- i)) else nat_digits (nat i))"

text \<open>
  \<^verbatim>\<open>v.k\<close> for any value: reading a property of \<^verbatim>\<open>null\<close> or \<^verbatim>\<open>undefined\<close>
  throws.
\<close>

fun field_or_throw :: "json \<Rightarrow> string \<Rightarrow> jserror + json" where
  "field_or_throw JNull k =
     Inl (type_error (''Cannot read properties of null (reading '' @ [CHR 0x27] @ k @ [CHR 0x27] @ '')''))"
| "field_or_throw JUndefined k =
     Inl (type_error (''Cannot read properties of undefined (reading '' @ [CHR 0x27] @ k @ [CHR 0x27] @ '')''))"
| "field_or_throw v k = Inr (field v (ascii k))"

text \<open>\<^verbatim>\<open>err.message || err\<close> in a template, \<^verbatim>\<open>err.message || String(err)\<close> in a reply.\<close>

definition message_or_error :: "jserror \<Rightarrow> jsstring" where
  "message_or_error err = (if message err \<noteq> [] then message err else rendering err)"

text \<open>
  \<^verbatim>\<open>xs.map(f)\<close> where \<open>f\<close> may throw: the first exception ends the loop.
\<close>

fun map_throw :: "('a \<Rightarrow> jserror + 'b) \<Rightarrow> 'a list \<Rightarrow> jserror + 'b list" where
  "map_throw f [] = Inr []"
| "map_throw f (x # xs) =
     (case f x of
        Inl err \<Rightarrow> Inl err
      | Inr y \<Rightarrow> (case map_throw f xs of Inl err \<Rightarrow> Inl err | Inr ys \<Rightarrow> Inr (y # ys)))"

section \<open>The world outside the handlers\<close>

text \<open>
  One message of a chat request, and the request
  \<^verbatim>\<open>client.chat.completions.create({model, response_format, messages})\<close>;
  \<open>json_object\<close> says whether \<^verbatim>\<open>response_format: { type: "json_object" }\<close> is set.
\<close>

datatype chat_message = ChatMessage (role: jsstring) (content: json)

datatype chat_request =
  ChatRequest (model: jsstring) (json_object: bool) (messages: "chat_message list")

text \<open>
  A workbook as \<^verbatim>\<open>extractTextFromFile\<close> walks it: the sheet names in order, each
  with \<open>None\<close> when \<^verbatim>\<open>workbook.Sheets[sheetName]\<close> is missing, and otherwise with what
  \<^verbatim>\<open>xlsx.utils.sheet_to_csv\<close> does on that sheet (it throws, or returns the CSV text).
\<close>

type_synonym workbook = "(jsstring \<times> (jserror + jsstring) option) list"

text \<open>
  Everything a handler call takes from outside the source file, fixed for the call:
  the clock, the reasoning collaborator (\<open>chat\<close>: the request to
  \<^verbatim>\<open>completion.choices[0].message.content\<close>, or the exception thrown on the way), the
  library functions \<^verbatim>\<open>JSON.parse\<close>, \<^verbatim>\<open>JSON.stringify(_, null, 2)\<close>,
  \<^verbatim>\<open>String\<close> on a number and \<^verbatim>\<open>toLowerCase\<close>, and the file system as
  \<^verbatim>\<open>xlsx.readFile\<close> and \<^verbatim>\<open>fs.readFileSync\<close> (decoded as UTF-8) see it. All are
  parameters: the theorems hold for every collaborator, clock, library and disk.
\<close>

record world =
  Date_now :: int
  chat :: "chat_request \<Rightarrow> jserror + json"
  JSON_parse :: "json \<Rightarrow> jserror + json"
  JSON_stringify :: "json \<Rightarrow> jsstring"
  Number_toString :: "rat \<Rightarrow> jsstring"
  String_toLowerCase :: "jsstring \<Rightarrow> jsstring"
  xlsx_readFile :: "jsstring \<Rightarrow> jserror + workbook"
  readFileSync :: "jsstring \<Rightarrow> jserror + jsstring"

text \<open>
  The string a value becomes inside a template literal or next to \<^verbatim>\<open>+\<close> with a
  string: an array joins its elements with commas, \<^verbatim>\<open>null\<close> and \<^verbatim>\<open>undefined\<close>
  elements giving the empty string. An object is taken to have no own property named
  \<^verbatim>\<open>toString\<close> or \<^verbatim>\<open>valueOf\<close>; with one, the conversion throws in the source.
\<close>

fun to_String :: "world \<Rightarrow> json \<Rightarrow> jsstring" where
  "to_String w JUndefined = ascii ''undefined''"
| "to_String w JNull = ascii ''null''"
| "to_String w (JBool b) = (if b then ascii ''true'' else ascii ''false'')"
| "to_String w (JNum n) = Number_toString w n"
| "to_String w (JStr s) = s"
| "to_String w (JArr xs) =
     js_join (ascii '','')
       (map (\<lambda>x. if x = JNull then [] else if x = JUndefined then [] else to_String w x) xs)"
| "to_String w (JObj kvs) = ascii ''[object Object]''"
| "to_String w (JFunction src) = src"

section \<open>The prompts\<close>

definition parseSpecs_systemPrompt :: jsstring where
  \<open>parseSpecs_systemPrompt = concat
    [ascii ''\<newline>'',
     ascii ''You are a procurement assistant for industrial stainless steel / metal projects.\<newline>'',
     ascii ''\<newline>'',
     ascii ''You receive long, complex technical content: engineering drawings, design specifications, BOM tables, datasheets.\<newline>'',
     ascii ''\<newline>'',
     ascii ''Your job is to extract a CLEAN LIST of procurement line items in THIS JSON schema:\<newline>'',
     ascii ''\<newline>'',
     ascii ''{\<newline>'',
     ascii ''  "project_name": string|null,\<newline>'',
     ascii ''  "line_items": [\<newline>'',
     ascii ''    {\<newline>'',
     ascii ''      "item_id": string,\<newline>'',
     ascii ''      "raw_description": string,\<newline>'',
     ascii ''      "product_category": string|null,\<newline>'',
     ascii ''      "product_type": string|null,\<newline>'',
     ascii ''      "material_grade": string|null,\<newline>'',
     ascii ''      "standard_or_spec": string|null,\<newline>'',
     ascii ''      "size": {\<newline>'',
     ascii ''        "outer_diameter": { "value": number|null, "unit": string|null },\<newline>'',
     ascii ''        "wall_thickness": { "value": number|null, "unit": string|null },\<newline>'',
     ascii ''        "length":        { "value": number|null, "unit": string|null }\<newline>'',
     ascii ''      },\<newline>'',
     ascii ''      "quantity": number|null,\<newline>'',
     ascii ''      "unit": string|null,\<newline>'',
     ascii ''      "delivery_location": string|null,\<newline>'',
     ascii ''      "required_delivery_date": string|null,\<newline>'',
     ascii ''      "incoterm": string|null,\<newline>'',
     ascii ''      "payment_terms": string|null,\<newline>'',
     ascii ''      "other_requirements": string[]\<newline>'',
     ascii ''    }\<newline>'',
     ascii ''  ]\<newline>'',
     ascii ''}\<newline>'',
     ascii ''\<newline>'',
     ascii ''Rules:\<newline>'',
     ascii ''- Focus on items that must be physically procured (pipes, tubes, fittings, valves, plates, structural steel, fasteners, gaskets, instruments, etc.).\<newline>'',
     ascii ''- If multiple distinct sizes, ratings or materials are present, split them into separate line_items.\<newline>'',
     ascii ''- Use "other_requirements" for free-text like "cut to 500'' @ [0x2013] @ ascii ''1000 mm", "plywood case", "ISO9001 and MTC".\<newline>'',
     ascii ''- Only use null when the document truly does not specify the value.\<newline>'',
     ascii ''- Do NOT invent sizes, grades or quantities.\<newline>'',
     ascii ''- project_name can be inferred from context or null.\<newline>'',
     ascii ''- Return ONLY the JSON object, no extra text.\<newline>'']\<close>

definition parse_request_systemPrompt :: jsstring where
  \<open>parse_request_systemPrompt = concat
    [ascii ''\<newline>'',
     ascii ''You turn messy natural-language procurement text into a structured RFQ JSON object\<newline>'',
     ascii ''for industrial stainless steel / metal products.\<newline>'',
     ascii ''\<newline>'',
     ascii ''The input text may be an email, bullets, or a long paragraph.\<newline>'',
     ascii ''Identify each distinct product (tube/pipe/fitting/valve, etc) and commercial terms.\<newline>'',
     ascii ''\<newline>'',
     ascii ''Return ONLY JSON in this schema:\<newline>'',
     ascii ''\<newline>'',
     ascii ''{\<newline>'',
     ascii ''  "project_name": string|null,\<newline>'',
     ascii ''  "line_items": [\<newline>'',
     ascii ''    {\<newline>'',
     ascii ''      "item_id": string,\<newline>'',
     ascii ''      "raw_description": string,\<newline>'',
     ascii ''      "product_category": string|null,\<newline>'',
     ascii ''      "product_type": string|null,\<newline>'',
     ascii ''      "material_grade": string|null,\<newline>'',
     ascii ''      "standard_or_spec": string|null,\<newline>'',
     ascii ''      "size": {\<newline>'',
     ascii ''        "outer_diameter": { "value": number|null, "unit": string|null },\<newline>'',
     ascii ''        "wall_thickness": { "value": number|null, "unit": string|null },\<newline>'',
     ascii ''        "length":        { "value": number|null, "unit": string|null }\<newline>'',
     ascii ''      },\<newline>'',
     ascii ''      "quantity": number|null,\<newline>'',
     ascii ''      "unit": string|null,\<newline>'',
     ascii ''      "delivery_location": string|null,\<newline>'',
     ascii ''      "required_delivery_date": string|null,\<newline>'',
     ascii ''      "incoterm": string|null,\<newline>'',
     ascii ''      "payment_terms": string|null,\<newline>'',
     ascii ''      "other_requirements": string[]\<newline>'',
     ascii ''    }\<newline>'',
     ascii ''  ]\<newline>'',
     ascii ''}\<newline>'',
     ascii ''\<newline>'',
     ascii ''Rules:\<newline>'',
     ascii ''- One line_item per distinct product (size/material/use).\<newline>'',
     ascii ''- If numerical details are unclear, set value to null and put text in other_requirements.\<newline>'',
     ascii ''- Do NOT invent data. Use null when not given.\<newline>'',
     ascii ''- project_name can be inferred from context or null.\<newline>'',
     ascii ''- Return ONLY the JSON object, no extra text.\<newline>'']\<close>

definition clarify_systemPrompt :: jsstring where
  \<open>clarify_systemPrompt = concat
    [ascii ''\<newline>'',
     ascii ''You are Crontal's RFQ conversation assistant for industrial stainless steel / metal procurement.\<newline>'',
     ascii ''\<newline>'',
     ascii ''Goal:\<newline>'',
     ascii ''- Help the buyer refine a structured RFQ (already parsed) through short, concrete messages.\<newline>'',
     ascii ''- Always reference the STRUCTURED RFQ JSON you receive, not just the raw text.\<newline>'',
     ascii ''\<newline>'',
     ascii ''VERY IMPORTANT:\<newline>'',
     ascii ''- Before asking for more information, carefully READ the existing rfq.line_items and rfq.commercial fields.\<newline>'',
     ascii ''- ONLY ask for details that are still missing across MOST line items.\<newline>'',
     ascii ''  - If description, grade and size are already present, do NOT say they are missing.\<newline>'',
     ascii ''  - If destination, incoterm, or payment_terms are already set, do NOT ask for them again.\<newline>'',
     ascii ''\<newline>'',
     ascii ''Your job:\<newline>'',
     ascii ''1) Briefly confirm what you have understood.\<newline>'',
     ascii ''2) Call out IMPORTANT missing details ONLY if they are truly missing.\<newline>'',
     ascii ''3) Make 1'' @ [0x2013] @ ascii ''3 SPECIFIC suggestions about what to update in the table on the right.\<newline>'',
     ascii ''4) Ask 1 clear follow-up question.\<newline>'',
     ascii ''\<newline>'',
     ascii ''Style:\<newline>'',
     ascii ''- Be concise (3'' @ [0x2013] @ ascii ''6 sentences).\<newline>'',
     ascii ''- Use plain, professional language.\<newline>'',
     ascii ''- Do NOT repeat what Crontal is or greet again.\<newline>'']\<close>

definition negotiate_systemPrompt :: jsstring where
  \<open>negotiate_systemPrompt = concat
    [ascii ''\<newline>'',
     ascii ''You are Crontal's negotiation assistant helping an industrial buyer negotiate RFQs with suppliers.\<newline>'',
     ascii ''\<newline>'',
     ascii ''Given:\<newline>'',
     ascii ''- rfq: structured JSON of what the buyer is procuring\<newline>'',
     ascii ''- quote: a supplier's quote including prices, lead time, payment terms, notes\<newline>'',
     ascii ''- goal: a short string describing the buyer's negotiation objective\<newline>'',
     ascii ''\<newline>'',
     ascii ''Tasks:\<newline>'',
     ascii ''1. Briefly restate what the supplier is offering (1'' @ [0x2013] @ ascii ''2 sentences).\<newline>'',
     ascii ''2. Provide 2'' @ [0x2013] @ ascii ''4 concrete negotiation suggestions aligned with the goal.\<newline>'',
     ascii ''3. Draft a short sample email paragraph the buyer could send to the supplier to open the negotiation.\<newline>'',
     ascii ''\<newline>'',
     ascii ''Keep it practical, professional, and under about 200 words.\<newline>'',
     ascii ''Return plain text (no JSON).\<newline>'']\<close>

text \<open>
  The user prompt of \<^verbatim>\<open>parse-request\<close>: \<^verbatim>\<open>text\<close> goes into the template as it
  arrived, and \<^verbatim>\<open>project_name || "null"\<close> after it.
\<close>

definition parse_request_userPrompt :: "world \<Rightarrow> json \<Rightarrow> json \<Rightarrow> jsstring" where
  \<open>parse_request_userPrompt w text project_name =
     ascii ''\<newline>Buyer RFQ text:\<newline>"""'' @ to_String w text
     @ ascii ''"""\<newline>\<newline>Provided project_name (may be null): ''
     @ to_String w (js_or project_name (JStr (ascii ''null'')))
     @ ascii ''\<newline>\<newline>Extract line_items and commercial terms.\<newline>''\<close>

text \<open>
  \<^verbatim>\<open>parseSpecsToLineItems\<close>: \<^verbatim>\<open>MAX_CHARS\<close>, the truncation of the combined text,
  and the user prompt built around the truncated text.
\<close>

definition MAX_CHARS :: nat where
  "MAX_CHARS = 12000"

definition truncated :: "jsstring \<Rightarrow> jsstring" where
  "truncated combinedText =
    (if length combinedText > MAX_CHARS
     then take MAX_CHARS combinedText @ ascii ''\<newline>\<newline>[TRUNCATED]''
     else combinedText)"

definition parseSpecs_userPrompt :: "world \<Rightarrow> jsstring \<Rightarrow> json \<Rightarrow> jsstring" where
  \<open>parseSpecs_userPrompt w combinedText project_name =
     ascii ''\<newline>Below are one or more files from a project specification package\<newline>''
     @ ascii ''(engineering PDFs and Excel tech specs).\<newline>\<newline>''
     @ ascii ''Please extract a clean list of line_items that a buyer would need to source from suppliers.\<newline>\<newline>''
     @ ascii ''Provided project_name (may be null): ''
     @ to_String w (js_or project_name (JStr (ascii ''null'')))
     @ ascii ''\<newline>\<newline>TEXT STARTS:\<newline>"""'' @ truncated combinedText
     @ ascii ''"""\<newline>''\<close>

section \<open>The Normalizer: free text\<close>

text \<open>The request \<^verbatim>\<open>parse-request\<close> sends to the collaborator.\<close>

definition parse_request_chat :: "world \<Rightarrow> json \<Rightarrow> json \<Rightarrow> chat_request" where
  "parse_request_chat w text project_name =
     ChatRequest (ascii ''gpt-4o-mini'') True
       [ChatMessage (ascii ''system'') (JStr parse_request_systemPrompt),
        ChatMessage (ascii ''user'') (JStr (parse_request_userPrompt w text project_name))]"

text \<open>The \<^verbatim>\<open>catch\<close> of \<^verbatim>\<open>parse-request\<close>: \<^verbatim>\<open>detail: err.message\<close>.\<close>

definition parsing_failed :: "jserror \<Rightarrow> response" where
  "parsing_failed err =
     Reply 500 (JObj [(ascii ''error'', JStr (ascii ''Parsing failed'')),
                      (ascii ''detail'', JStr (message err))])"

text \<open>
  \<^verbatim>\<open>"RFQ-" + Date.now()\<close>.
\<close>

definition new_rfq_id :: "world \<Rightarrow> jsstring" where
  "new_rfq_id w = ascii ''RFQ-'' @ integer_toString (Date_now w)"

text \<open>
  \<^verbatim>\<open>app.post("/api/buyer/parse-request")\<close>. Every statement of the \<^verbatim>\<open>try\<close> block
  that can throw is a \<open>case\<close> whose \<open>Inl\<close> branch is the \<^verbatim>\<open>catch\<close>: the
  collaborator call, \<^verbatim>\<open>JSON.parse\<close>, and the read of \<^verbatim>\<open>parsed.project_name\<close>
  (\<^verbatim>\<open>parsed\<close> may be \<^verbatim>\<open>null\<close>).
\<close>

definition parse_request :: "world \<Rightarrow> json \<Rightarrow> stores \<Rightarrow> response \<times> stores" where
  "parse_request w req_body st =
    (let text = destructure req_body ''text'';
         project_name = destructure req_body ''project_name''
     in
     if \<not> truthy text then (Reply 400 (error_body ''Missing text''), st)
     else
       (case chat w (parse_request_chat w text project_name) of
          Inl err \<Rightarrow> (parsing_failed err, st)
        | Inr completion \<Rightarrow>
            (case JSON_parse w completion of
               Inl err \<Rightarrow> (parsing_failed err, st)
             | Inr parsed \<Rightarrow>
                 (case field_or_throw parsed ''project_name'' of
                    Inl err \<Rightarrow> (parsing_failed err, st)
                  | Inr extracted \<Rightarrow>
                      let finalProjectName =
                            js_or (js_or extracted project_name) (JStr (ascii ''Untitled RFQ''));
                          rfqId = new_rfq_id w;
                          rfq = JObj
                            [(ascii ''rfq_id'', JStr rfqId),
                             (ascii ''project_name'', finalProjectName),
                             (ascii ''line_items'',
                                js_or (field parsed (ascii ''line_items'')) (JArr [])),
                             (ascii ''original_text'', text)]
                      in (Reply 200 rfq, st\<lparr>rfqStore := (rfqStore st)(rfqId \<mapsto> rfq)\<rparr>)))))"

section \<open>The Text Extractor\<close>

text \<open>A file as multer hands it over: its declared name and where its bytes are.\<close>

record upload_file =
  originalname :: jsstring
  path :: jsstring

text \<open>
  The \<^verbatim>\<open>forEach\<close> over \<^verbatim>\<open>workbook.SheetNames\<close> that builds
  \<^verbatim>\<open>allSheetsText\<close>; an exception of \<^verbatim>\<open>sheet_to_csv\<close> leaves the loop.
\<close>

fun sheets_text :: "workbook \<Rightarrow> jsstring \<Rightarrow> jserror + jsstring" where
  "sheets_text [] allSheetsText = Inr allSheetsText"
| "sheets_text ((sheetName, None) # rest) allSheetsText = sheets_text rest allSheetsText"
| "sheets_text ((sheetName, Some (Inl err)) # rest) allSheetsText = Inl err"
| "sheets_text ((sheetName, Some (Inr csv)) # rest) allSheetsText =
     sheets_text rest
       (allSheetsText @ ascii ''\<newline>\<newline>SHEET: '' @ sheetName @ ascii ''\<newline>'' @ csv)"

text \<open>
  \<^verbatim>\<open>extractTextFromFile\<close>. In the Excel branch nothing is caught, so an exception
  of \<^verbatim>\<open>xlsx.readFile\<close> leaves the function; in the other two branches a failed read
  is caught and becomes a sentinel text.
\<close>

definition extractTextFromFile :: "world \<Rightarrow> upload_file \<Rightarrow> jserror + jsstring" where
  "extractTextFromFile w file =
    (let ext = String_toLowerCase w (last_segment (originalname file));
         filePath = path file
     in
     if ext = ascii ''xlsx'' \<or> ext = ascii ''xls'' then
       (case xlsx_readFile w filePath of
          Inl err \<Rightarrow> Inl err
        | Inr workbook \<Rightarrow>
            (case sheets_text workbook [] of
               Inl err \<Rightarrow> Inl err
             | Inr allSheetsText \<Rightarrow>
                 Inr (ascii ''EXCEL FILE: '' @ originalname file @ ascii ''\<newline>''
                      @ allSheetsText)))
     else if ext = ascii ''pdf'' then
       (case readFileSync w filePath of
          Inr text \<Rightarrow>
            Inr (ascii ''PDF FILE: '' @ originalname file @ ascii ''\<newline>\<newline>''
                 @ (if text = [] \<or> js_trim text = []
                    then ascii ''[NO CLEAR TEXT EXTRACTED '' @ [0x2013]
                         @ ascii '' PDF may be scanned or graphical. Buyer may need to upload a BOM or type the scope in text.]''
                    else text))
        | Inl err \<Rightarrow>
            Inr (ascii ''PDF FILE: '' @ originalname file
                 @ ascii ''\<newline>\<newline>[UNABLE TO READ PDF BYTES '' @ [0x2013] @ ascii '' ''
                 @ message_or_error err @ ascii '']''))
     else
       (case readFileSync w filePath of
          Inr raw \<Rightarrow>
            if js_trim raw = []
            then Inr (ascii ''FILE: '' @ originalname file
                      @ ascii ''\<newline>\<newline>[NO TEXT EXTRACTED]'')
            else Inr (ascii ''FILE: '' @ originalname file @ ascii ''\<newline>\<newline>'' @ raw)
        | Inl err \<Rightarrow>
            Inr (ascii ''FILE: '' @ originalname file
                 @ ascii ''\<newline>\<newline>[UNABLE TO READ FILE CONTENT '' @ [0x2013] @ ascii '' ''
                 @ message_or_error err @ ascii '']'')))"

section \<open>The Normalizer: uploaded files\<close>

text \<open>
  \<^verbatim>\<open>parseSpecsToLineItems(combinedText, project_name = null)\<close>: the request it
  sends, and the function itself, which throws what the collaborator call or
  \<^verbatim>\<open>JSON.parse\<close> throws.
\<close>

definition parseSpecs_chat :: "world \<Rightarrow> jsstring \<Rightarrow> json \<Rightarrow> chat_request" where
  "parseSpecs_chat w combinedText project_name =
     ChatRequest (ascii ''gpt-4o-mini'') True
       [ChatMessage (ascii ''system'') (JStr parseSpecs_systemPrompt),
        ChatMessage (ascii ''user'') (JStr (parseSpecs_userPrompt w combinedText project_name))]"

definition parseSpecsToLineItems :: "world \<Rightarrow> jsstring \<Rightarrow> json \<Rightarrow> jserror + json" where
  "parseSpecsToLineItems w combinedText project_name_arg =
    (let project_name = (if project_name_arg = JUndefined then JNull else project_name_arg) in
     case chat w (parseSpecs_chat w combinedText project_name) of
       Inl err \<Rightarrow> Inl err
     | Inr completion \<Rightarrow> JSON_parse w completion)"

text \<open>
  The \<^verbatim>\<open>for (const file of files)\<close> loop of \<^verbatim>\<open>upload-specs\<close>, with \<open>texts\<close> as
  accumulator: a text is pushed when \<^verbatim>\<open>text && text.trim()\<close>, an exception of
  \<^verbatim>\<open>extractTextFromFile\<close> is caught and logged, and the loop goes on to the next file.
  The \<^verbatim>\<open>finally\<close> deletes the temporary file and swallows a failure to do so; the
  disk is read through \<open>w\<close> only, so the deletion changes nothing here.
\<close>

fun collect_texts :: "world \<Rightarrow> upload_file list \<Rightarrow> jsstring list \<Rightarrow> jsstring list" where
  "collect_texts w [] texts = texts"
| "collect_texts w (file # files) texts =
     (case extractTextFromFile w file of
        Inr text \<Rightarrow>
          if text = [] then collect_texts w files texts
          else if js_trim text = [] then collect_texts w files texts
          else collect_texts w files (texts @ [text])
      | Inl err \<Rightarrow> collect_texts w files texts)"

text \<open>The line of the fallback text for one file, and the fallback text.\<close>

definition fallback_line :: "upload_file \<Rightarrow> jsstring" where
  "fallback_line f =
     ascii ''FILE: '' @ originalname f
     @ ascii '' (no readable content extracted; likely scanned or unsupported format)''"

definition fallbackText :: "upload_file list \<Rightarrow> jsstring" where
  "fallbackText files = js_join (ascii ''\<newline>'') (map fallback_line files)"

text \<open>
  \<^verbatim>\<open>combinedText\<close>: the texts of the loop, or the fallback text alone when the loop
  pushed none, joined with the file separator.
\<close>

definition combinedText :: "world \<Rightarrow> upload_file list \<Rightarrow> jsstring" where
  "combinedText w files =
    (let texts0 = collect_texts w files [];
         texts = (if texts0 = [] then texts0 @ [fallbackText files] else texts0)
     in js_join (ascii ''\<newline>\<newline>----- FILE SEPARATOR -----\<newline>\<newline>'') texts)"

text \<open>The outer \<^verbatim>\<open>catch\<close> of \<^verbatim>\<open>upload-specs\<close>: \<^verbatim>\<open>detail: err.message || String(err)\<close>.\<close>

definition upload_failed :: "jserror \<Rightarrow> response" where
  "upload_failed err =
     Reply 500 (JObj [(ascii ''error'', JStr (ascii ''Parsing failed'')),
                      (ascii ''detail'', JStr (message_or_error err))])"

text \<open>
  What \<^verbatim>\<open>upload-specs\<close> does with \<^verbatim>\<open>combinedText\<close> once it is assembled: the
  rest of its \<^verbatim>\<open>try\<close> block, the Normalizer proper.
\<close>

definition normalize_upload :: "world \<Rightarrow> jsstring \<Rightarrow> json \<Rightarrow> stores \<Rightarrow> response \<times> stores" where
  "normalize_upload w combined project_name st =
    (case parseSpecsToLineItems w combined project_name of
       Inl err \<Rightarrow> (upload_failed err, st)
     | Inr parsed \<Rightarrow>
         (case field_or_throw parsed ''project_name'' of
            Inl err \<Rightarrow> (upload_failed err, st)
          | Inr extracted \<Rightarrow>
              let finalProjectName =
                    js_or (js_or extracted project_name) (JStr (ascii ''Untitled RFQ''));
                  lineItems =
                    (case field parsed (ascii ''line_items'') of
                       JArr xs \<Rightarrow> JArr xs
                     | _ \<Rightarrow> JArr []);
                  rfqId = new_rfq_id w;
                  rfq = JObj
                    [(ascii ''rfq_id'', JStr rfqId),
                     (ascii ''project_name'', finalProjectName),
                     (ascii ''line_items'', lineItems),
                     (ascii ''original_text'', JStr combined)]
              in (Reply 200 rfq, st\<lparr>rfqStore := (rfqStore st)(rfqId \<mapsto> rfq)\<rparr>)))"

text \<open>
  \<^verbatim>\<open>app.post("/api/buyer/upload-specs")\<close>, with \<open>files\<close> for \<^verbatim>\<open>req.files || []\<close>.
\<close>

definition upload_specs ::
  "world \<Rightarrow> upload_file list \<Rightarrow> json \<Rightarrow> stores \<Rightarrow> response \<times> stores" where
  "upload_specs w files req_body st =
    (let project_name = destructure req_body ''project_name'' in
     if files = [] then (Reply 400 (error_body ''No files uploaded.''), st)
     else normalize_upload w (combinedText w files) project_name st)"

section \<open>The Clarification Engine\<close>

text \<open>
  \<^verbatim>\<open>xs.map(f)\<close> on a truthy value \<open>xs\<close> of a request body: only an array has
  \<^verbatim>\<open>map\<close>. \<open>callee\<close> is the text of the expression called, which the message of
  the \<^verbatim>\<open>TypeError\<close> starts with.
\<close>

fun js_map :: "string \<Rightarrow> (json \<Rightarrow> jserror + json) \<Rightarrow> json \<Rightarrow> jserror + json list" where
  "js_map callee f (JArr xs) = map_throw f xs"
| "js_map callee f v = Inl (type_error (callee @ '' is not a function''))"

text \<open>The summary of one line item, with the two historical namings of each field.\<close>

definition clarify_item :: "json \<Rightarrow> jserror + json" where
  "clarify_item li =
    (case field_or_throw li ''line'' of
       Inl err \<Rightarrow> Inl err
     | Inr line \<Rightarrow> Inr (JObj
         [(ascii ''line'', line),
          (ascii ''description'',
             js_or (js_or (field li (ascii ''description'')) (field li (ascii ''product_type'')))
                   (field li (ascii ''raw_description''))),
          (ascii ''grade'',
             js_or (field li (ascii ''grade'')) (field li (ascii ''material_grade''))),
          (ascii ''quantity'', field li (ascii ''quantity'')),
          (ascii ''uom'', js_or (field li (ascii ''uom'')) (field li (ascii ''unit'')))]))"

text \<open>The object handed to \<^verbatim>\<open>JSON.stringify\<close> as \<^verbatim>\<open>rfqSummary\<close>.\<close>

definition clarify_summary :: "json \<Rightarrow> jserror + json" where
  "clarify_summary rfq =
    (let items = js_or (js_or (field rfq (ascii ''items'')) (field rfq (ascii ''line_items'')))
                       (JArr [])
     in case js_map ''items.map'' clarify_item items of
          Inl err \<Rightarrow> Inl err
        | Inr line_items \<Rightarrow> Inr (JObj
            [(ascii ''rfq_id'', js_or (field rfq (ascii ''id'')) (field rfq (ascii ''rfq_id''))),
             (ascii ''project_name'', field rfq (ascii ''project_name'')),
             (ascii ''commercial'', field rfq (ascii ''commercial'')),
             (ascii ''line_items'', JArr line_items)]))"

text \<open>One turn of \<^verbatim>\<open>history\<close>, and \<^verbatim>\<open>historyMessages\<close>.\<close>

definition history_message :: "json \<Rightarrow> jserror + chat_message" where
  "history_message m =
    (case field_or_throw m ''role'' of
       Inl err \<Rightarrow> Inl err
     | Inr r \<Rightarrow> Inr (ChatMessage
         (if r = JStr (ascii ''assistant'') then ascii ''assistant'' else ascii ''user'')
         (js_or (field m (ascii ''content'')) (JStr []))))"

fun historyMessages :: "json \<Rightarrow> jserror + chat_message list" where
  "historyMessages (JArr ms) = map_throw history_message ms"
| "historyMessages v = Inr []"

text \<open>The request \<^verbatim>\<open>clarify\<close> sends to the collaborator.\<close>

definition clarify_chat ::
  "world \<Rightarrow> json \<Rightarrow> chat_message list \<Rightarrow> json \<Rightarrow> chat_request" where
  "clarify_chat w summary history_msgs latestUser =
     ChatRequest (ascii ''gpt-4o-mini'') False
       ([ChatMessage (ascii ''system'') (JStr clarify_systemPrompt),
         ChatMessage (ascii ''user'')
           (JStr (ascii ''Here is the current structured RFQ JSON:\<newline>\<newline>''
                  @ JSON_stringify w summary
                  @ ascii ''\<newline>\<newline>Use this as ground truth for what has been parsed so far.''))]
        @ history_msgs
        @ [if truthy latestUser
           then ChatMessage (ascii ''user'')
             (JStr (ascii ''Latest buyer message (may clarify destination, dates, payment, etc.):\<newline>\<newline>''
                    @ to_String w latestUser))
           else ChatMessage (ascii ''user'')
             (JStr (ascii ''No new buyer message; just suggest next refinements based on the RFQ JSON.''))])"

text \<open>
  \<^verbatim>\<open>content?.trim() || fallback\<close> inside a \<^verbatim>\<open>try\<close>: \<^verbatim>\<open>null\<close> and
  \<^verbatim>\<open>undefined\<close> give the fallback, a string its trimmed text unless that is empty, and
  any other value has no \<^verbatim>\<open>trim\<close>, which throws.
\<close>

fun trimmed_or :: "json \<Rightarrow> jsstring \<Rightarrow> jserror + jsstring" where
  "trimmed_or JNull fallback = Inr fallback"
| "trimmed_or JUndefined fallback = Inr fallback"
| "trimmed_or (JStr s) fallback = Inr (if js_trim s \<noteq> [] then js_trim s else fallback)"
| "trimmed_or v fallback =
     Inl (type_error ''completion.choices[0].message.content?.trim is not a function'')"

definition clarify_default_message :: jsstring where
  "clarify_default_message =
     ascii ''I'' @ [0x2019]
     @ ascii ''ve interpreted your RFQ and populated the table. Let me know what delivery location, dates, and payment terms you want so I can tighten it further.''"

definition clarify_failed :: "jserror \<Rightarrow> response" where
  "clarify_failed err =
     Reply 500 (JObj [(ascii ''error'', JStr (ascii ''Clarify failed'')),
                      (ascii ''detail'', JStr (message_or_error err))])"

text \<open>
  \<^verbatim>\<open>app.post("/api/buyer/clarify")\<close>. The two \<^verbatim>\<open>map\<close> calls stand before the
  \<^verbatim>\<open>try\<close>, so what they throw is not caught by the handler. The handler has no
  statement that assigns to \<^verbatim>\<open>rfqStore\<close>, \<^verbatim>\<open>quoteStore\<close> or a property of
  \<^verbatim>\<open>rfq\<close>.
\<close>

definition clarify :: "world \<Rightarrow> json \<Rightarrow> stores \<Rightarrow> response \<times> stores" where
  "clarify w req_body st =
    (let rfq = destructure req_body ''rfq'';
         history = destructure req_body ''history'';
         user_message = destructure req_body ''user_message''
     in
     if \<not> truthy rfq then (Reply 400 (error_body ''Missing rfq in request body''), st)
     else
       (case clarify_summary rfq of
          Inl err \<Rightarrow> (Unhandled err, st)
        | Inr summary \<Rightarrow>
            (case historyMessages history of
               Inl err \<Rightarrow> (Unhandled err, st)
             | Inr history_msgs \<Rightarrow>
                 let latestUser = js_or user_message (JStr []) in
                 (case chat w (clarify_chat w summary history_msgs latestUser) of
                    Inl err \<Rightarrow> (clarify_failed err, st)
                  | Inr completion \<Rightarrow>
                      (case trimmed_or completion clarify_default_message of
                         Inl err \<Rightarrow> (clarify_failed err, st)
                       | Inr assistant_message \<Rightarrow>
                           (Reply 200 (JObj [(ascii ''assistant_message'', JStr assistant_message)]),
                            st))))))"

section \<open>The Negotiation Advisor\<close>

text \<open>One entry of \<^verbatim>\<open>context.rfq.items\<close>.\<close>

definition negotiate_item :: "json \<Rightarrow> jserror + json" where
  "negotiate_item it =
    (case field_or_throw it ''line'' of
       Inl err \<Rightarrow> Inl err
     | Inr line \<Rightarrow> Inr (JObj
         [(ascii ''line'', line),
          (ascii ''description'', field it (ascii ''description'')),
          (ascii ''grade'', field it (ascii ''grade'')),
          (ascii ''quantity'', field it (ascii ''quantity'')),
          (ascii ''uom'', field it (ascii ''uom''))]))"

text \<open>
  The object \<^verbatim>\<open>context\<close> of \<^verbatim>\<open>negotiate\<close>: the items are those of
  \<^verbatim>\<open>rfq.items || []\<close>.
\<close>

definition negotiate_context :: "json \<Rightarrow> json \<Rightarrow> jserror + json" where
  "negotiate_context rfq quote =
    (case js_map ''(rfq.items || []).map'' negotiate_item
            (js_or (field rfq (ascii ''items'')) (JArr [])) of
       Inl err \<Rightarrow> Inl err
     | Inr items \<Rightarrow> Inr (JObj
         [(ascii ''rfq'', JObj
            [(ascii ''id'', js_or (field rfq (ascii ''id'')) (field rfq (ascii ''rfq_id''))),
             (ascii ''commercial'', field rfq (ascii ''commercial'')),
             (ascii ''items'', JArr items)]),
          (ascii ''quote'', quote)]))"

text \<open>The request \<^verbatim>\<open>negotiate\<close> sends to the collaborator.\<close>

definition negotiate_chat :: "world \<Rightarrow> json \<Rightarrow> json \<Rightarrow> chat_request" where
  "negotiate_chat w ctx goal =
     ChatRequest (ascii ''gpt-4o-mini'') False
       [ChatMessage (ascii ''system'') (JStr negotiate_systemPrompt),
        ChatMessage (ascii ''user'')
          (JStr (ascii ''RFQ and quote data:\<newline>'' @ JSON_stringify w ctx
                 @ ascii ''\<newline>\<newline>Negotiation goal: ''
                 @ to_String w
                     (js_or goal
                        (JStr (ascii (''negotiate this quote in the buyer'' @ [CHR 0x27]
                                      @ ''s favor''))))))]"

definition negotiate_failed :: "jserror \<Rightarrow> response" where
  "negotiate_failed err =
     Reply 500 (JObj [(ascii ''error'', JStr (ascii ''Negotiation failed'')),
                      (ascii ''detail'', JStr (message_or_error err))])"

text \<open>\<^verbatim>\<open>app.post("/api/buyer/negotiate")\<close>.\<close>

definition negotiate :: "world \<Rightarrow> json \<Rightarrow> stores \<Rightarrow> response \<times> stores" where
  "negotiate w req_body st =
    (let rfq = destructure req_body ''rfq'';
         quote = destructure req_body ''quote'';
         goal = destructure req_body ''goal''
     in
     if \<not> truthy rfq then (Reply 400 (error_body ''Missing rfq or quote in request body''), st)
     else if \<not> truthy quote
       then (Reply 400 (error_body ''Missing rfq or quote in request body''), st)
     else
       (case negotiate_context rfq quote of
          Inl err \<Rightarrow> (Unhandled err, st)
        | Inr ctx \<Rightarrow>
            (case chat w (negotiate_chat w ctx goal) of
               Inl err \<Rightarrow> (negotiate_failed err, st)
             | Inr completion \<Rightarrow>
                 (case trimmed_or completion [] of
                    Inl err \<Rightarrow> (negotiate_failed err, st)
                  | Inr advice \<Rightarrow> (Reply 200 (JObj [(ascii ''advice'', JStr advice)]), st)))))"

section \<open>The routes\<close>

text \<open>
  A request, by route, and the dispatch of Express to the handler of the route. The
  handlers run one after the other on the registries, each in the world of its call.
\<close>

datatype request =
    PostParseRequest json
  | PostClarify json
  | PostUploadSpecs "upload_file list" json
  | PostNegotiate json
  | GetRfq jsstring
  | PostQuote jsstring json
  | GetQuotes jsstring

fun handle :: "world \<Rightarrow> request \<Rightarrow> stores \<Rightarrow> response \<times> stores" where
  "handle w (PostParseRequest req_body) st = parse_request w req_body st"
| "handle w (PostClarify req_body) st = clarify w req_body st"
| "handle w (PostUploadSpecs files req_body) st = upload_specs w files req_body st"
| "handle w (PostNegotiate req_body) st = negotiate w req_body st"
| "handle w (GetRfq rid) st = (get_rfq rid st, st)"
| "handle w (PostQuote rid req_body) st = post_quote rid req_body st"
| "handle w (GetQuotes rid) st = (get_quotes rid st, st)"

text \<open>The two routes of the Normalizer.\<close>

fun normalization :: "request \<Rightarrow> bool" where
  "normalization (PostParseRequest req_body) = True"
| "normalization (PostUploadSpecs files req_body) = True"
| "normalization r = False"

text \<open>A sequence of calls, each with its world, run in order.\<close>

fun run :: "(world \<times> request) list \<Rightarrow> stores \<Rightarrow> stores" where
  "run [] st = st"
| "run ((w, r) # calls) st = run calls (snd (handle w r st))"

section \<open>The specification's project-name precedence\<close>

text \<open>
  The precedence as the specification words it: the extracted name if present, else the
  caller's hint if present, else the placeholder. A value is present when it is truthy: a
  missing property, \<^verbatim>\<open>null\<close> and the empty string are not.
\<close>

definition spec_project_name :: "json \<Rightarrow> json \<Rightarrow> json" where
  "spec_project_name extracted hint =
    (if truthy extracted then extracted
     else if truthy hint then hint
     else JStr (ascii ''Untitled RFQ''))"

section \<open>Sample data\<close>

text \<open>
  A world for concrete runs: the clock reads 1700000000000, the collaborator answers with
  one pipe line item and no project name, no spreadsheet can be opened and every other file
  reads as \<^verbatim>\<open>20 pcs pipe\<close>.
\<close>

definition ascii_lower :: "jsstring \<Rightarrow> jsstring" where
  "ascii_lower s = map (\<lambda>c. if 0x0041 \<le> c \<and> c \<le> 0x005A then c + 0x0020 else c) s"

definition pipe_item :: json where
  "pipe_item = JObj
     [(ascii ''item_id'', JStr (ascii ''1'')),
      (ascii ''raw_description'', JStr (ascii ''2-inch SS316 seamless pipe'')),
      (ascii ''material_grade'', JStr (ascii ''SS316'')),
      (ascii ''quantity'', JNum 20),
      (ascii ''unit'', JStr (ascii ''pcs''))]"

definition pipe_answer :: json where
  "pipe_answer = JObj
     [(ascii ''project_name'', JNull),
      (ascii ''line_items'', JArr [pipe_item])]"

definition demo_world :: world where
  "demo_world =
     \<lparr>Date_now = 1700000000000,
      chat = (\<lambda>req. Inr (JStr (ascii ''{}''))),
      JSON_parse = (\<lambda>completion. Inr pipe_answer),
      JSON_stringify = (\<lambda>v. ascii ''{}''),
      Number_toString = (\<lambda>n. ascii ''0''),
      String_toLowerCase = ascii_lower,
      xlsx_readFile = (\<lambda>p. Inl (JsError (ascii ''File is password-protected'')
                                        (ascii ''Error: File is password-protected''))),
      readFileSync = (\<lambda>p. Inr (ascii ''20 pcs pipe''))\<rparr>"


text \<open>
  Two free-text requests, a batch with one unreadable spreadsheet and one text file, a
  batch of two unreadable spreadsheets, and the RFQs the sample world makes of them.
\<close>

definition demo_body :: json where
  "demo_body = JObj
     [(ascii ''text'', JStr (ascii ''Need 20 pcs 2-inch SS316 seamless pipe to Houston'')),
      (ascii ''project_name'', JStr (ascii ''Plant A''))]"

definition demo_body2 :: json where
  "demo_body2 = JObj [(ascii ''text'', JStr (ascii ''Need 5 valves''))]"

definition demo_parsed_rfq :: json where
  "demo_parsed_rfq = JObj
     [(ascii ''rfq_id'', JStr (ascii ''RFQ-1700000000000'')),
      (ascii ''project_name'', JStr (ascii ''Plant A'')),
      (ascii ''line_items'', JArr [pipe_item]),
      (ascii ''original_text'', JStr (ascii ''Need 20 pcs 2-inch SS316 seamless pipe to Houston''))]"

definition demo_parsed_rfq2 :: json where
  "demo_parsed_rfq2 = JObj
     [(ascii ''rfq_id'', JStr (ascii ''RFQ-1700000000000'')),
      (ascii ''project_name'', JStr (ascii ''Untitled RFQ'')),
      (ascii ''line_items'', JArr [pipe_item]),
      (ascii ''original_text'', JStr (ascii ''Need 5 valves''))]"

definition bom_xlsx :: upload_file where
  "bom_xlsx = \<lparr>originalname = ascii ''bom.xlsx'', path = ascii ''uploads/1''\<rparr>"

definition scope_txt :: upload_file where
  "scope_txt = \<lparr>originalname = ascii ''scope.txt'', path = ascii ''uploads/2''\<rparr>"

definition drawings_xls :: upload_file where
  "drawings_xls = \<lparr>originalname = ascii ''Drawings.XLS'', path = ascii ''uploads/3''\<rparr>"

definition demo_upload_rfq :: json where
  "demo_upload_rfq = JObj
     [(ascii ''rfq_id'', JStr (ascii ''RFQ-1700000000000'')),
      (ascii ''project_name'', JStr (ascii ''Untitled RFQ'')),
      (ascii ''line_items'', JArr [pipe_item]),
      (ascii ''original_text'', JStr (ascii ''FILE: scope.txt\<newline>\<newline>20 pcs pipe''))]"

text \<open>
  The sample world with a collaborator that names the project, and what it makes of the
  first request.
\<close>

definition named_answer :: json where
  "named_answer = JObj
     [(ascii ''project_name'', JStr (ascii ''Refinery revamp'')),
      (ascii ''line_items'', JArr [pipe_item])]"

definition named_world :: world where
  "named_world = demo_world\<lparr>JSON_parse := (\<lambda>completion. Inr named_answer)\<rparr>"

definition named_rfq :: json where
  "named_rfq = JObj
     [(ascii ''rfq_id'', JStr (ascii ''RFQ-1700000000000'')),
      (ascii ''project_name'', JStr (ascii ''Refinery revamp'')),
      (ascii ''line_items'', JArr [pipe_item]),
      (ascii ''original_text'', JStr (ascii ''Need 20 pcs 2-inch SS316 seamless pipe to Houston''))]"

text \<open>What the sample world makes of the batch of two unreadable spreadsheets.\<close>

definition demo_fallback_rfq :: json where
  "demo_fallback_rfq = JObj
     [(ascii ''rfq_id'', JStr (ascii ''RFQ-1700000000000'')),
      (ascii ''project_name'', JStr (ascii ''Untitled RFQ'')),
      (ascii ''line_items'', JArr [pipe_item]),
      (ascii ''original_text'', JStr (ascii ''FILE: bom.xlsx (no readable content extracted; likely scanned or unsupported format)\<newline>FILE: Drawings.XLS (no readable content extracted; likely scanned or unsupported format)''))]"

text \<open>The same world one millisecond later, and the second request normalized in it.\<close>

definition later_world :: world where
  "later_world = demo_world\<lparr>Date_now := 1700000000001\<rparr>"

definition later_rfq :: json where
  "later_rfq = JObj
     [(ascii ''rfq_id'', JStr (ascii ''RFQ-1700000000001'')),
      (ascii ''project_name'', JStr (ascii ''Untitled RFQ'')),
      (ascii ''line_items'', JArr [pipe_item]),
      (ascii ''original_text'', JStr (ascii ''Need 5 valves''))]"

text \<open>The sample world with the collaborator out of reach, and a clarify request.\<close>

definition down_world :: world where
  "down_world =
     demo_world\<lparr>chat := (\<lambda>req. Inl (JsError (ascii ''Request timed out.'')
                                              (ascii ''Error: Request timed out.'')))\<rparr>"

definition clarify_body :: json where
  "clarify_body = JObj
     [(ascii ''rfq'', demo_parsed_rfq),
      (ascii ''history'', JArr
         [JObj [(ascii ''role'', JStr (ascii ''assistant'')),
                (ascii ''content'', JStr (ascii ''Which incoterm?''))]]),
      (ascii ''user_message'', JStr (ascii ''FOB Houston''))]"

definition demo_rfq :: json where
  "demo_rfq = JObj
     [(ascii ''rfq_id'', JStr (ascii ''RFQ-1'')),
      (ascii ''project_name'', JStr (ascii ''Untitled RFQ'')),
      (ascii ''line_items'', JArr []),
      (ascii ''original_text'', JStr (ascii ''Need 20 pcs 2-inch SS316 seamless pipe''))]"

definition demo_stores :: stores where
  "demo_stores = \<lparr>rfqStore = [ascii ''RFQ-1'' \<mapsto> demo_rfq], quoteStore = Map.empty\<rparr>"

definition quote_a :: json where
  "quote_a = JObj [(ascii ''price'', JNum 10)]"



section \<open>Facts about strings and values\<close>

lemma unat_of_char: "unat (of_char c :: 16 word) = of_char c"
proof -
  have "(of_char c :: nat) < 256"
    by (metis of_char_mod_256 mod_less_divisor zero_less_numeral)
  moreover have "(256::nat) < 2 ^ 16" by simp
  ultimately have "(of_char c :: nat) < 2 ^ 16" by (rule less_trans)
  then have "(of_char c :: nat) mod 2 ^ 16 = of_char c" by (rule mod_less)
  moreover have "(of_char c :: 16 word) = of_nat (of_char c)"
    by (simp add: of_nat_of_char)
  ultimately show ?thesis by (simp add: unat_of_nat)
qed

lemma of_char_word_eq_iff: "(of_char c :: 16 word) = of_char d \<longleftrightarrow> c = d"
proof
  assume "(of_char c :: 16 word) = of_char d"
  then have "unat (of_char c :: 16 word) = unat (of_char d :: 16 word)" by simp
  then have "(of_char c :: nat) = of_char d" by (simp only: unat_of_char)
  then show "c = d" by simp
qed simp

lemma ascii_eq_iff [simp]: "ascii a = ascii b \<longleftrightarrow> a = b"
  unfolding ascii_def
  by (rule inj_map_eq_map) (simp add: inj_on_def of_char_word_eq_iff)

lemma ascii_Nil [simp]: "ascii [] = []"
  by (simp add: ascii_def)

lemma ascii_eq_Nil [simp]: "ascii s = [] \<longleftrightarrow> s = []"
  by (simp add: ascii_def)

lemma length_ascii [simp]: "length (ascii s) = length s"
  by (simp add: ascii_def)

lemma ascii_append: "ascii (a @ b) = ascii a @ ascii b"
  by (simp add: ascii_def)

subsection \<open>The decimal rendering of the clock is injective\<close>

declare nat_digits.simps [simp del]

lemma unat_digit_char: "d < 10 \<Longrightarrow> unat (digit_char d) = 48 + d"
  unfolding digit_char_def by (simp only: unat_of_nat) simp

lemma digit_char_eq_iff:
  "a < 10 \<Longrightarrow> b < 10 \<Longrightarrow> digit_char a = digit_char b \<longleftrightarrow> a = b"
  by (metis unat_digit_char add_left_cancel)

lemma digit_char_not_minus: "d < 10 \<Longrightarrow> digit_char d \<noteq> 0x002D"
proof
  assume d: "d < 10" and "digit_char d = 0x002D"
  then have "unat (digit_char d) = unat (0x002D :: 16 word)" by simp
  with d show False by (simp add: unat_digit_char)
qed

lemma nat_digits_not_Nil: "nat_digits n \<noteq> []"
  by (subst nat_digits.simps) simp

lemma minus_notin_nat_digits: "0x002D \<notin> set (nat_digits n)"
proof (induction n rule: nat_digits.induct)
  case (1 n)
  show ?case
  proof (cases "n < 10")
    case True
    then show ?thesis
      using digit_char_not_minus [of n] by (subst nat_digits.simps) auto
  next
    case False
    have "n mod 10 < 10" by simp
    then have "digit_char (n mod 10) \<noteq> 0x002D" by (rule digit_char_not_minus)
    with False 1 show ?thesis
      by (subst nat_digits.simps) auto
  qed
qed

lemma nat_digits_inj: "nat_digits m = nat_digits n \<Longrightarrow> m = n"
proof (induction m arbitrary: n rule: nat_digits.induct)
  case (1 m)
  show ?case
  proof (cases "m < 10")
    case small_m: True
    show ?thesis
    proof (cases "n < 10")
      case True
      with small_m 1(2) show ?thesis
        by (simp add: nat_digits.simps [of m] nat_digits.simps [of n] digit_char_eq_iff)
    next
      case False
      with small_m 1(2) nat_digits_not_Nil [of "n div 10"] show ?thesis
        by (simp add: nat_digits.simps [of m] nat_digits.simps [of n])
    qed
  next
    case big_m: False
    show ?thesis
    proof (cases "n < 10")
      case True
      with big_m 1(2) nat_digits_not_Nil [of "m div 10"] show ?thesis
        by (simp add: nat_digits.simps [of m] nat_digits.simps [of n])
    next
      case False
      with big_m 1(2) have eq: "nat_digits (m div 10) = nat_digits (n div 10)"
        and last: "digit_char (m mod 10) = digit_char (n mod 10)"
        by (simp_all add: nat_digits.simps [of m] nat_digits.simps [of n])
      from 1(1) [OF big_m eq] have "m div 10 = n div 10" .
      moreover from last have "m mod 10 = n mod 10"
        by (simp add: digit_char_eq_iff)
      ultimately show ?thesis
        by (metis div_mult_mod_eq)
    qed
  qed
qed

lemma integer_toString_inj: "integer_toString i = integer_toString j \<Longrightarrow> i = j"
proof -
  assume eq: "integer_toString i = integer_toString j"
  show "i = j"
  proof (cases "i < 0")
    case ineg: True
    show ?thesis
    proof (cases "j < 0")
      case True
      with ineg eq have "nat (- i) = nat (- j)"
        by (auto simp add: integer_toString_def dest: nat_digits_inj)
      with ineg True show ?thesis by simp
    next
      case False
      with ineg eq have "nat_digits (nat j) = 0x002D # nat_digits (nat (- i))"
        by (simp add: integer_toString_def)
      then have "0x002D \<in> set (nat_digits (nat j))"
        by simp
      then show ?thesis by (simp add: minus_notin_nat_digits)
    qed
  next
    case ipos: False
    show ?thesis
    proof (cases "j < 0")
      case True
      with ipos eq have "nat_digits (nat i) = 0x002D # nat_digits (nat (- j))"
        by (simp add: integer_toString_def)
      then have "0x002D \<in> set (nat_digits (nat i))"
        by simp
      then show ?thesis by (simp add: minus_notin_nat_digits)
    next
      case False
      with ipos eq have "nat i = nat j"
        by (auto simp add: integer_toString_def dest: nat_digits_inj)
      with ipos False show ?thesis by simp
    qed
  qed
qed

lemma new_rfq_id_eq_iff: "new_rfq_id w1 = new_rfq_id w2 \<longleftrightarrow> Date_now w1 = Date_now w2"
  by (auto simp add: new_rfq_id_def dest: integer_toString_inj)

subsection \<open>The quote ledger\<close>


lemma inherited_other: "\<not> is_inherited k \<Longrightarrow> inherited k = JUndefined"
  by (simp add: is_inherited_def inherited_def)


lemma generated_id_not_inherited: "\<not> is_inherited (ascii (CHR ''R'' # s))"
  by (simp add: is_inherited_def prototype_functions_def)








subsection \<open>The Normalizer\<close>

lemma field_or_throw_Inr:
  "field_or_throw v k = Inr x \<Longrightarrow> x = field v (ascii k)"
  by (cases v) simp_all

lemma parse_request_ok:
  assumes "fst (parse_request w b st) = Reply 200 rfq"
  shows "snd (parse_request w b st) = st\<lparr>rfqStore := (rfqStore st)(new_rfq_id w \<mapsto> rfq)\<rparr>"
    and "field rfq (ascii ''rfq_id'') = JStr (new_rfq_id w)"
    and "\<exists>completion parsed.
           chat w (parse_request_chat w (destructure b ''text'') (destructure b ''project_name''))
             = Inr completion
         \<and> JSON_parse w completion = Inr parsed
         \<and> field rfq (ascii ''project_name'')
             = js_or (js_or (field parsed (ascii ''project_name'')) (destructure b ''project_name''))
                 (JStr (ascii ''Untitled RFQ''))"
    and "field rfq (ascii ''original_text'') = destructure b ''text''"
    and "truthy rfq"
  using assms
  by (auto simp add: parse_request_def Let_def parsing_failed_def error_body_def
      split: if_splits sum.splits dest: field_or_throw_Inr)

lemma normalize_upload_ok:
  assumes "fst (normalize_upload w combined hint st) = Reply 200 rfq"
  shows "snd (normalize_upload w combined hint st)
           = st\<lparr>rfqStore := (rfqStore st)(new_rfq_id w \<mapsto> rfq)\<rparr>"
    and "field rfq (ascii ''rfq_id'') = JStr (new_rfq_id w)"
    and "\<exists>parsed.
           parseSpecsToLineItems w combined hint = Inr parsed
         \<and> field rfq (ascii ''project_name'')
             = js_or (js_or (field parsed (ascii ''project_name'')) hint)
                 (JStr (ascii ''Untitled RFQ''))"
    and "field rfq (ascii ''original_text'') = JStr combined"
    and "truthy rfq"
  using assms
  by (auto simp add: normalize_upload_def Let_def upload_failed_def
      split: if_splits sum.splits dest: field_or_throw_Inr)

lemma upload_specs_ok:
  assumes "fst (upload_specs w files b st) = Reply 200 rfq"
  shows "upload_specs w files b st
           = normalize_upload w (combinedText w files) (destructure b ''project_name'') st"
  using assms
  by (auto simp add: upload_specs_def Let_def error_body_def split: if_splits)

lemma js_or_precedence:
  "js_or (js_or e h) (JStr (ascii ''Untitled RFQ'')) = spec_project_name e h"
  by (simp add: js_or_def spec_project_name_def)

lemma normalization_ok:
  assumes "normalization c" and "fst (handle w c st) = Reply 200 rfq"
  shows "snd (handle w c st) = st\<lparr>rfqStore := (rfqStore st)(new_rfq_id w \<mapsto> rfq)\<rparr>"
    and "field rfq (ascii ''rfq_id'') = JStr (new_rfq_id w)"
    and "truthy rfq"
proof -
  have "snd (handle w c st) = st\<lparr>rfqStore := (rfqStore st)(new_rfq_id w \<mapsto> rfq)\<rparr>
      \<and> field rfq (ascii ''rfq_id'') = JStr (new_rfq_id w) \<and> truthy rfq"
  proof (cases c)
    case (PostParseRequest b)
    with assms(2) have "fst (parse_request w b st) = Reply 200 rfq" by simp
    from parse_request_ok(1,2,5) [OF this] PostParseRequest show ?thesis by simp
  next
    case (PostUploadSpecs files b)
    with assms(2) have ok: "fst (upload_specs w files b st) = Reply 200 rfq" by simp
    from upload_specs_ok [OF ok] ok
    have "fst (normalize_upload w (combinedText w files) (destructure b ''project_name'') st)
            = Reply 200 rfq" by simp
    from normalize_upload_ok(1,2,5) [OF this] upload_specs_ok [OF ok] PostUploadSpecs
    show ?thesis by simp
  qed (use assms(1) in simp_all)
  then show "snd (handle w c st) = st\<lparr>rfqStore := (rfqStore st)(new_rfq_id w \<mapsto> rfq)\<rparr>"
    and "field rfq (ascii ''rfq_id'') = JStr (new_rfq_id w)"
    and "truthy rfq"
    by simp_all
qed

lemma demo_clock: "new_rfq_id demo_world = ascii ''RFQ-1700000000000''"
  by (simp add: new_rfq_id_def demo_world_def integer_toString_def nat_digits.simps
      ascii_def digit_char_def)

lemma demo_parse_request:
  "parse_request demo_world demo_body st
     = (Reply 200 demo_parsed_rfq,
        st\<lparr>rfqStore := (rfqStore st)(ascii ''RFQ-1700000000000'' \<mapsto> demo_parsed_rfq)\<rparr>)"
proof -
  have tx: "destructure demo_body ''text''
      = JStr (ascii ''Need 20 pcs 2-inch SS316 seamless pipe to Houston'')"
    and hint: "destructure demo_body ''project_name'' = JStr (ascii ''Plant A'')"
    by (simp_all add: destructure_def demo_body_def js_or_def)
  have ch: "\<And>r. chat demo_world r = Inr (JStr (ascii ''{}''))"
    and pa: "\<And>c. JSON_parse demo_world c = Inr pipe_answer"
    by (simp_all add: demo_world_def)
  have ex: "field_or_throw pipe_answer ''project_name'' = Inr JNull"
    and li: "field pipe_answer (ascii ''line_items'') = JArr [pipe_item]"
    by (simp_all add: pipe_answer_def)
  show ?thesis
    unfolding parse_request_def tx hint Let_def ch pa ex li demo_clock
    by (simp add: js_or_def demo_parsed_rfq_def ex li)
qed

lemma demo_parse_request2:
  "parse_request demo_world demo_body2 st
     = (Reply 200 demo_parsed_rfq2,
        st\<lparr>rfqStore := (rfqStore st)(ascii ''RFQ-1700000000000'' \<mapsto> demo_parsed_rfq2)\<rparr>)"
proof -
  have tx: "destructure demo_body2 ''text'' = JStr (ascii ''Need 5 valves'')"
    and hint: "destructure demo_body2 ''project_name'' = JUndefined"
    by (simp_all add: destructure_def demo_body2_def js_or_def)
  have ch: "\<And>r. chat demo_world r = Inr (JStr (ascii ''{}''))"
    and pa: "\<And>c. JSON_parse demo_world c = Inr pipe_answer"
    by (simp_all add: demo_world_def)
  have ex: "field_or_throw pipe_answer ''project_name'' = Inr JNull"
    and li: "field pipe_answer (ascii ''line_items'') = JArr [pipe_item]"
    by (simp_all add: pipe_answer_def)
  show ?thesis
    unfolding parse_request_def tx hint Let_def ch pa ex li demo_clock
    by (simp add: js_or_def demo_parsed_rfq2_def ex li)
qed

lemma named_clock: "new_rfq_id named_world = ascii ''RFQ-1700000000000''"
  by (simp add: new_rfq_id_def named_world_def demo_world_def integer_toString_def
      nat_digits.simps ascii_def digit_char_def)

lemma named_parse_request:
  "parse_request named_world demo_body st
     = (Reply 200 named_rfq,
        st\<lparr>rfqStore := (rfqStore st)(ascii ''RFQ-1700000000000'' \<mapsto> named_rfq)\<rparr>)"
proof -
  have tx: "destructure demo_body ''text''
      = JStr (ascii ''Need 20 pcs 2-inch SS316 seamless pipe to Houston'')"
    and hint: "destructure demo_body ''project_name'' = JStr (ascii ''Plant A'')"
    by (simp_all add: destructure_def demo_body_def js_or_def)
  have ch: "\<And>r. chat named_world r = Inr (JStr (ascii ''{}''))"
    and pa: "\<And>c. JSON_parse named_world c = Inr named_answer"
    by (simp_all add: named_world_def demo_world_def)
  have ex: "field_or_throw named_answer ''project_name'' = Inr (JStr (ascii ''Refinery revamp''))"
    and li: "field named_answer (ascii ''line_items'') = JArr [pipe_item]"
    by (simp_all add: named_answer_def)
  show ?thesis
    unfolding parse_request_def tx hint Let_def ch pa named_clock
    by (simp add: js_or_def named_rfq_def ex li)
qed

subsection \<open>The sample upload\<close>

lemma demo_ext_xlsx: "ascii_lower (last_segment (ascii ''bom.xlsx'')) = ascii ''xlsx''"
  by (simp add: ascii_lower_def last_segment_def ascii_def)

lemma demo_ext_xls: "ascii_lower (last_segment (ascii ''Drawings.XLS'')) = ascii ''xls''"
  by (simp add: ascii_lower_def last_segment_def ascii_def)

lemma demo_ext_txt: "ascii_lower (last_segment (ascii ''scope.txt'')) = ascii ''txt''"
  by (simp add: ascii_lower_def last_segment_def ascii_def)

lemma demo_extract_bom:
  "extractTextFromFile demo_world bom_xlsx
     = Inl (JsError (ascii ''File is password-protected'')
                    (ascii ''Error: File is password-protected''))"
  by (simp add: extractTextFromFile_def bom_xlsx_def demo_world_def demo_ext_xlsx)

lemma demo_extract_drawings:
  "extractTextFromFile demo_world drawings_xls
     = Inl (JsError (ascii ''File is password-protected'')
                    (ascii ''Error: File is password-protected''))"
  by (simp add: extractTextFromFile_def drawings_xls_def demo_world_def demo_ext_xls)

lemma demo_trim: "js_trim (ascii ''20 pcs pipe'') = ascii ''20 pcs pipe''"
  by (simp add: js_trim_def js_space_def ascii_def)

lemma demo_trim_scope:
  "js_trim (ascii ''FILE: scope.txt\<newline>\<newline>20 pcs pipe'')
     = ascii ''FILE: scope.txt\<newline>\<newline>20 pcs pipe''"
  by (simp add: js_trim_def js_space_def ascii_def)

lemma demo_extract_scope:
  "extractTextFromFile demo_world scope_txt
     = Inr (ascii ''FILE: scope.txt\<newline>\<newline>20 pcs pipe'')"
  by (simp add: extractTextFromFile_def scope_txt_def demo_world_def demo_ext_txt demo_trim
      ascii_append [symmetric])

lemma demo_collect_mixed:
  "collect_texts demo_world [bom_xlsx, scope_txt] []
     = [ascii ''FILE: scope.txt\<newline>\<newline>20 pcs pipe'']"
  by (simp add: demo_extract_bom demo_extract_scope demo_trim_scope)

lemma demo_collect_unreadable:
  "collect_texts demo_world [bom_xlsx, drawings_xls] [] = []"
  by (simp add: demo_extract_bom demo_extract_drawings)

lemma demo_combined_mixed:
  "combinedText demo_world [bom_xlsx, scope_txt]
     = ascii ''FILE: scope.txt\<newline>\<newline>20 pcs pipe''"
  unfolding combinedText_def demo_collect_mixed by (simp add: Let_def)

lemma demo_normalize_upload:
  "normalize_upload demo_world (ascii ''FILE: scope.txt\<newline>\<newline>20 pcs pipe'') JUndefined st
     = (Reply 200 demo_upload_rfq,
        st\<lparr>rfqStore := (rfqStore st)(ascii ''RFQ-1700000000000'' \<mapsto> demo_upload_rfq)\<rparr>)"
proof -
  have pa: "\<And>t h. parseSpecsToLineItems demo_world t h = Inr pipe_answer"
    by (simp add: parseSpecsToLineItems_def demo_world_def)
  have ex: "field_or_throw pipe_answer ''project_name'' = Inr JNull"
    and li: "field pipe_answer (ascii ''line_items'') = JArr [pipe_item]"
    by (simp_all add: pipe_answer_def)
  show ?thesis
    by (simp add: normalize_upload_def pa ex li demo_clock js_or_def demo_upload_rfq_def Let_def)
qed

lemma demo_upload_specs:
  "upload_specs demo_world [bom_xlsx, scope_txt] (JObj []) st
     = (Reply 200 demo_upload_rfq,
        st\<lparr>rfqStore := (rfqStore st)(ascii ''RFQ-1700000000000'' \<mapsto> demo_upload_rfq)\<rparr>)"
  by (simp add: upload_specs_def destructure_def js_or_def demo_combined_mixed
      demo_normalize_upload)

lemma later_clock: "new_rfq_id later_world = ascii ''RFQ-1700000000001''"
  by (simp add: new_rfq_id_def later_world_def integer_toString_def nat_digits.simps
      ascii_def digit_char_def)

lemma later_parse_request:
  "parse_request later_world demo_body2 st
     = (Reply 200 later_rfq,
        st\<lparr>rfqStore := (rfqStore st)(ascii ''RFQ-1700000000001'' \<mapsto> later_rfq)\<rparr>)"
proof -
  have tx: "destructure demo_body2 ''text'' = JStr (ascii ''Need 5 valves'')"
    and hint: "destructure demo_body2 ''project_name'' = JUndefined"
    by (simp_all add: destructure_def demo_body2_def js_or_def)
  have ch: "\<And>r. chat later_world r = Inr (JStr (ascii ''{}''))"
    and pa: "\<And>c. JSON_parse later_world c = Inr pipe_answer"
    by (simp_all add: later_world_def demo_world_def)
  have ex: "field_or_throw pipe_answer ''project_name'' = Inr JNull"
    and li: "field pipe_answer (ascii ''line_items'') = JArr [pipe_item]"
    by (simp_all add: pipe_answer_def)
  show ?thesis
    unfolding parse_request_def tx hint Let_def ch pa later_clock
    by (simp add: js_or_def later_rfq_def ex li)
qed

subsection \<open>The Clarification Engine and the Negotiation Advisor\<close>

lemma clarify_frame: "snd (clarify w b st) = st"
  by (simp add: clarify_def Let_def split: sum.splits)

lemma negotiate_frame: "snd (negotiate w b st) = st"
  by (simp add: negotiate_def Let_def split: sum.splits)

lemma demo_pipe_line: "field_or_throw pipe_item ''line'' = Inr JUndefined"
  by (simp add: pipe_item_def)

lemma demo_clarify_item:
  "clarify_item pipe_item = Inr (JObj
     [(ascii ''line'', JUndefined),
      (ascii ''description'', JStr (ascii ''2-inch SS316 seamless pipe'')),
      (ascii ''grade'', JStr (ascii ''SS316'')),
      (ascii ''quantity'', JNum 20),
      (ascii ''uom'', JStr (ascii ''pcs''))])"
  unfolding clarify_item_def demo_pipe_line
  by (simp add: pipe_item_def js_or_def)

lemma demo_clarify_summary:
  "clarify_summary demo_parsed_rfq = Inr (JObj
     [(ascii ''rfq_id'', JStr (ascii ''RFQ-1700000000000'')),
      (ascii ''project_name'', JStr (ascii ''Plant A'')),
      (ascii ''commercial'', JUndefined),
      (ascii ''line_items'', JArr [JObj
         [(ascii ''line'', JUndefined),
          (ascii ''description'', JStr (ascii ''2-inch SS316 seamless pipe'')),
          (ascii ''grade'', JStr (ascii ''SS316'')),
          (ascii ''quantity'', JNum 20),
          (ascii ''uom'', JStr (ascii ''pcs''))]])])"
proof -
  have items: "js_or (js_or (field demo_parsed_rfq (ascii ''items''))
                  (field demo_parsed_rfq (ascii ''line_items''))) (JArr [])
      = JArr [pipe_item]"
    by (simp add: demo_parsed_rfq_def js_or_def)
  show ?thesis
    unfolding clarify_summary_def items Let_def
    by (simp add: demo_clarify_item) (simp add: demo_parsed_rfq_def js_or_def)
qed

lemma demo_negotiate_context:
  "negotiate_context demo_parsed_rfq quote_a = Inr (JObj
     [(ascii ''rfq'', JObj
        [(ascii ''id'', JStr (ascii ''RFQ-1700000000000'')),
         (ascii ''commercial'', JUndefined),
         (ascii ''items'', JArr [])]),
      (ascii ''quote'', quote_a)])"
proof -
  have items: "js_or (field demo_parsed_rfq (ascii ''items'')) (JArr []) = JArr []"
    by (simp add: demo_parsed_rfq_def js_or_def)
  show ?thesis
    unfolding negotiate_context_def items
    by (simp add: demo_parsed_rfq_def js_or_def)
qed

lemma run_clarify_frame:
  "run (map (\<lambda>(w, b). (w, PostClarify b)) calls) st = st"
  by (induction calls arbitrary: st) (auto simp add: clarify_frame)

lemma demo_history:
  "historyMessages (destructure clarify_body ''history'')
     = Inr [ChatMessage (ascii ''assistant'') (JStr (ascii ''Which incoterm?''))]"
  by (simp add: destructure_def clarify_body_def js_or_def history_message_def)

lemma demo_trim_braces: "js_trim (ascii ''{}'') = ascii ''{}''"
  by (simp add: js_trim_def js_space_def ascii_def)

lemma demo_clarify:
  "clarify demo_world clarify_body st
     = (Reply 200 (JObj [(ascii ''assistant_message'', JStr (ascii ''{}''))]), st)"
proof -
  have r: "destructure clarify_body ''rfq'' = demo_parsed_rfq"
    by (simp add: destructure_def clarify_body_def js_or_def)
  have t: "truthy demo_parsed_rfq"
    by (simp add: demo_parsed_rfq_def)
  have ch: "\<And>r. chat demo_world r = Inr (JStr (ascii ''{}''))"
    by (simp add: demo_world_def)
  show ?thesis
    unfolding clarify_def r Let_def demo_clarify_summary demo_history ch
    by (simp add: t demo_trim_braces)
qed

lemma down_clarify:
  "clarify down_world clarify_body st
     = (Reply 500 (JObj [(ascii ''error'', JStr (ascii ''Clarify failed'')),
                         (ascii ''detail'', JStr (ascii ''Request timed out.''))]), st)"
proof -
  have r: "destructure clarify_body ''rfq'' = demo_parsed_rfq"
    by (simp add: destructure_def clarify_body_def js_or_def)
  have t: "truthy demo_parsed_rfq"
    by (simp add: demo_parsed_rfq_def)
  have ch: "\<And>r. chat down_world r
      = Inl (JsError (ascii ''Request timed out.'') (ascii ''Error: Request timed out.''))"
    by (simp add: down_world_def)
  show ?thesis
    unfolding clarify_def r Let_def demo_clarify_summary demo_history ch
    by (simp add: t clarify_failed_def message_or_error_def)
qed

lemma negotiate_item_ok:
  "it \<noteq> JNull \<Longrightarrow> it \<noteq> JUndefined \<Longrightarrow>
     negotiate_item it = Inr (JObj
       [(ascii ''line'', field it (ascii ''line'')),
        (ascii ''description'', field it (ascii ''description'')),
        (ascii ''grade'', field it (ascii ''grade'')),
        (ascii ''quantity'', field it (ascii ''quantity'')),
        (ascii ''uom'', field it (ascii ''uom''))])"
  by (cases it) (simp_all add: negotiate_item_def)

lemma map_negotiate_item:
  "JNull \<notin> set its \<Longrightarrow> JUndefined \<notin> set its \<Longrightarrow>
     map_throw negotiate_item its = Inr (map (\<lambda>it. JObj
       [(ascii ''line'', field it (ascii ''line'')),
        (ascii ''description'', field it (ascii ''description'')),
        (ascii ''grade'', field it (ascii ''grade'')),
        (ascii ''quantity'', field it (ascii ''quantity'')),
        (ascii ''uom'', field it (ascii ''uom''))]) its)"
  by (induction its) (auto simp add: negotiate_item_ok)

text \<open>
  Where the advisor's context does carry the items: for an RFQ whose items are an array
  under \<^verbatim>\<open>items\<close>,
  the context has the five fields of every item, in order, the id, the commercial terms
  and the quote as given.
\<close>

lemma negotiate_context_items:
  assumes "field rfq (ascii ''items'') = JArr its"
    and "JNull \<notin> set its" and "JUndefined \<notin> set its"
  shows "negotiate_context rfq q = Inr (JObj
     [(ascii ''rfq'', JObj
        [(ascii ''id'', js_or (field rfq (ascii ''id'')) (field rfq (ascii ''rfq_id''))),
         (ascii ''commercial'', field rfq (ascii ''commercial'')),
         (ascii ''items'', JArr (map (\<lambda>it. JObj
            [(ascii ''line'', field it (ascii ''line'')),
             (ascii ''description'', field it (ascii ''description'')),
             (ascii ''grade'', field it (ascii ''grade'')),
             (ascii ''quantity'', field it (ascii ''quantity'')),
             (ascii ''uom'', field it (ascii ''uom''))]) its))]),
      (ascii ''quote'', q)])"
proof -
  have "js_or (field rfq (ascii ''items'')) (JArr []) = JArr its"
    by (simp add: assms(1) js_or_def)
  then show ?thesis
    by (simp add: negotiate_context_def map_negotiate_item [OF assms(2,3)])
qed

subsection \<open>Truncation\<close>

lemma truncated_long:
  "length t > 12000 \<Longrightarrow>
     truncated t = take 12000 t @ ascii ''\<newline>\<newline>[TRUNCATED]''"
  by (simp add: truncated_def MAX_CHARS_def)

lemma truncated_short: "length t \<le> 12000 \<Longrightarrow> truncated t = t"
  by (simp add: truncated_def MAX_CHARS_def)

text \<open>
  On the upload route the truncation is in place: the user message carries the combined
  text through \<open>truncated\<close>, so the 12,000-unit prefix and the marker when the text is
  longer, and the text itself otherwise.
\<close>

lemma parseSpecs_submits_truncated:
  \<open>messages (parseSpecs_chat w t hint) ! 1 = ChatMessage (ascii ''user'') (JStr
     (ascii ''\<newline>Below are one or more files from a project specification package\<newline>''
      @ ascii ''(engineering PDFs and Excel tech specs).\<newline>\<newline>''
      @ ascii ''Please extract a clean list of line_items that a buyer would need to source from suppliers.\<newline>\<newline>''
      @ ascii ''Provided project_name (may be null): ''
      @ to_String w (js_or hint (JStr (ascii ''null'')))
      @ ascii ''\<newline>\<newline>TEXT STARTS:\<newline>"""''
      @ (if length t > 12000 then take 12000 t @ ascii ''\<newline>\<newline>[TRUNCATED]'' else t)
      @ ascii ''"""\<newline>''))\<close>
  by (simp add: parseSpecs_chat_def parseSpecs_userPrompt_def truncated_def MAX_CHARS_def)

lemma long_text_parse_request:
  "parse_request demo_world (JObj [(ascii ''text'', JStr (replicate 12001 0x0061))]) st
     = (Reply 200 (JObj
         [(ascii ''rfq_id'', JStr (ascii ''RFQ-1700000000000'')),
          (ascii ''project_name'', JStr (ascii ''Untitled RFQ'')),
          (ascii ''line_items'', JArr [pipe_item]),
          (ascii ''original_text'', JStr (replicate 12001 0x0061))]),
        st\<lparr>rfqStore := (rfqStore st)(ascii ''RFQ-1700000000000'' \<mapsto> JObj
         [(ascii ''rfq_id'', JStr (ascii ''RFQ-1700000000000'')),
          (ascii ''project_name'', JStr (ascii ''Untitled RFQ'')),
          (ascii ''line_items'', JArr [pipe_item]),
          (ascii ''original_text'', JStr (replicate 12001 0x0061))])\<rparr>)"
proof -
  have tx: "destructure (JObj [(ascii ''text'', JStr (replicate 12001 0x0061))]) ''text''
      = JStr (replicate 12001 0x0061)"
    and hint: "destructure (JObj [(ascii ''text'', JStr (replicate 12001 0x0061))])
      ''project_name'' = JUndefined"
    by (simp_all add: destructure_def js_or_def)
  have ch: "\<And>r. chat demo_world r = Inr (JStr (ascii ''{}''))"
    and pa: "\<And>c. JSON_parse demo_world c = Inr pipe_answer"
    by (simp_all add: demo_world_def)
  have ex: "field_or_throw pipe_answer ''project_name'' = Inr JNull"
    and li: "field pipe_answer (ascii ''line_items'') = JArr [pipe_item]"
    by (simp_all add: pipe_answer_def)
  have t: "truthy (JStr (replicate 12001 (0x0061 :: 16 word)))"
    by simp
  show ?thesis
    unfolding parse_request_def tx hint Let_def ch pa demo_clock
    by (simp add: js_or_def ex li t)
qed

subsection \<open>The upload loop\<close>

lemma js_trim_Nil [simp]: "js_trim [] = []"
  by (simp add: js_trim_def)

lemma collect_texts_append:
  "collect_texts w files texts = texts @ collect_texts w files []"
proof (induction files arbitrary: texts)
  case Nil
  show ?case by simp
next
  case (Cons f files)
  note ih = Cons.IH
  show ?case
  proof (cases "extractTextFromFile w f")
    case (Inl err)
    then show ?thesis using ih [of texts] by simp
  next
    case (Inr t)
    then show ?thesis
      using ih [of texts] ih [of "texts @ [t]"] ih [of "[t]"] by simp
  qed
qed

lemma collect_texts_Cons:
  "collect_texts w (file # files) [] =
     (case extractTextFromFile w file of
        Inl err \<Rightarrow> []
      | Inr text \<Rightarrow> if js_trim text = [] then [] else [text])
     @ collect_texts w files []"
proof (cases "extractTextFromFile w file")
  case (Inl err)
  then show ?thesis by simp
next
  case (Inr t)
  then show ?thesis
    using collect_texts_append [of w files "[t]"] by auto
qed

lemma collect_texts_concat:
  "collect_texts w files [] =
     concat (map (\<lambda>file. case extractTextFromFile w file of
                            Inl err \<Rightarrow> []
                          | Inr text \<Rightarrow> if js_trim text = [] then [] else [text]) files)"
  by (induction files) (simp_all add: collect_texts_Cons del: collect_texts.simps(2))

lemma collect_texts_unusable:
  assumes "\<forall>file \<in> set files. \<forall>text. extractTextFromFile w file = Inr text \<longrightarrow> js_trim text = []"
  shows "collect_texts w files [] = []"
  unfolding collect_texts_concat using assms
  by (induction files) (auto split: sum.splits)

lemma collect_texts_keeps:
  assumes "file \<in> set files" and "extractTextFromFile w file = Inr text"
    and "js_trim text \<noteq> []"
  shows "text \<in> set (collect_texts w files [])"
  unfolding collect_texts_concat using assms by force

lemma js_trim_not_blank: "\<not> js_space c \<Longrightarrow> js_trim (c # s) \<noteq> []"
  by (simp add: js_trim_def dropWhile_eq_Nil_conv)

lemma ascii_Cons: "ascii (c # s) = of_char c # ascii s" by (simp add: ascii_def)

lemma not_space_E: "\<not> js_space (of_char CHR ''E'')" by (simp add: js_space_def)
lemma not_space_P: "\<not> js_space (of_char CHR ''P'')" by (simp add: js_space_def)
lemma not_space_F: "\<not> js_space (of_char CHR ''F'')" by (simp add: js_space_def)

text \<open>
  A text that \<^verbatim>\<open>extractTextFromFile\<close> returns starts with \<^verbatim>\<open>EXCEL FILE:\<close>,
  \<^verbatim>\<open>PDF FILE:\<close> or \<^verbatim>\<open>FILE:\<close> and so is never blank: the only files the
  loop skips are those whose extraction throws, which are spreadsheets that cannot be read.
\<close>

lemma extractTextFromFile_not_blank:
  "extractTextFromFile w f = Inr t \<Longrightarrow> js_trim t \<noteq> []"
  by (auto simp add: extractTextFromFile_def Let_def ascii_Cons js_trim_not_blank
      not_space_E not_space_P not_space_F
      simp del: of_char_Char split: if_splits sum.splits)

lemma demo_fallback:
  "fallbackText [bom_xlsx, drawings_xls]
     = ascii ''FILE: bom.xlsx (no readable content extracted; likely scanned or unsupported format)\<newline>FILE: Drawings.XLS (no readable content extracted; likely scanned or unsupported format)''"
  by (simp add: fallbackText_def fallback_line_def bom_xlsx_def drawings_xls_def
      ascii_append [symmetric])

lemma demo_normalize_any:
  "normalize_upload demo_world t JUndefined st
     = (Reply 200 (JObj
          [(ascii ''rfq_id'', JStr (ascii ''RFQ-1700000000000'')),
           (ascii ''project_name'', JStr (ascii ''Untitled RFQ'')),
           (ascii ''line_items'', JArr [pipe_item]),
           (ascii ''original_text'', JStr t)]),
        st\<lparr>rfqStore := (rfqStore st)(ascii ''RFQ-1700000000000'' \<mapsto> JObj
          [(ascii ''rfq_id'', JStr (ascii ''RFQ-1700000000000'')),
           (ascii ''project_name'', JStr (ascii ''Untitled RFQ'')),
           (ascii ''line_items'', JArr [pipe_item]),
           (ascii ''original_text'', JStr t)])\<rparr>)"
proof -
  have pa: "\<And>t h. parseSpecsToLineItems demo_world t h = Inr pipe_answer"
    by (simp add: parseSpecsToLineItems_def demo_world_def)
  have ex: "field_or_throw pipe_answer ''project_name'' = Inr JNull"
    and li: "field pipe_answer (ascii ''line_items'') = JArr [pipe_item]"
    by (simp_all add: pipe_answer_def)
  show ?thesis
    by (simp add: normalize_upload_def pa ex li demo_clock js_or_def Let_def)
qed

section \<open>Claims about the quote ledger\<close>

text \<open>
  Claim C3, on the empty registries: \<^verbatim>\<open>GET /api/rfqs/RFQ-0/quotes\<close> names no RFQ, and
  the sibling handlers \<^verbatim>\<open>GET /api/rfqs/RFQ-0\<close> and \<^verbatim>\<open>POST /api/rfqs/RFQ-0/quotes\<close>
  answer 404 for it, but the quotes listing answers 200 with \<^verbatim>\<open>{quotes: []}\<close>: it never
  consults \<^verbatim>\<open>rfqStore\<close>, so the 404 the claim states for an unknown id is not produced.
\<close>

theorem get_quotes_unknown_rfq_is_200:
  "get_quotes (ascii ''RFQ-0'') empty_stores = Reply 200 (JObj [(ascii ''quotes'', JArr [])])
   \<and> get_rfq (ascii ''RFQ-0'') empty_stores = Reply 404 (error_body ''RFQ not found'')
   \<and> fst (post_quote (ascii ''RFQ-0'') (JObj []) empty_stores)
       = Reply 404 (error_body ''RFQ not found'')"
proof -
  have plain: "inherited (ascii ''RFQ-0'') = JUndefined"
    by (rule inherited_other) (rule generated_id_not_inherited)
  show ?thesis
    by (simp add: get_quotes_def get_rfq_def post_quote_def quotes_at_def store_get_def
        empty_stores_def plain js_or_def)
qed

text \<open>
  What does hold of the listing: an id with no submitted quote, other than a name inherited
  from \<^verbatim>\<open>Object.prototype\<close>, lists as \<^verbatim>\<open>{quotes: []}\<close> with status 200, and
  for every id the status is 200.
\<close>

lemma get_quotes_no_quotes:
  "quoteStore st rid = None \<Longrightarrow> \<not> is_inherited rid \<Longrightarrow>
     get_quotes rid st = Reply 200 (JObj [(ascii ''quotes'', JArr [])])"
  by (simp add: get_quotes_def quotes_at_def inherited_other js_or_def)

lemma get_quotes_status: "status (get_quotes rid st) = 200"
  by (simp add: get_quotes_def)









section \<open>Claims about the Normalizer\<close>

text \<open>
  Claim C6. A normalization call, by either route, that answers 200 with an RFQ has put
  that RFQ into the RFQ registry under the id it carries in \<^verbatim>\<open>rfq_id\<close>; a
  \<^verbatim>\<open>GET /api/rfqs/:id\<close> with that id, run next on the registries the call left,
  answers 200 with exactly that RFQ.
\<close>

theorem normalized_rfq_round_trip:
  assumes "normalization c" and "fst (handle w c st) = Reply 200 rfq"
  shows "\<exists>rid. field rfq (ascii ''rfq_id'') = JStr rid
             \<and> rfqStore (snd (handle w c st)) rid = Some rfq
             \<and> handle w' (GetRfq rid) (snd (handle w c st))
                 = (Reply 200 rfq, snd (handle w c st))"
proof -
  note ok = normalization_ok [OF assms]
  have "rfqStore (snd (handle w c st)) (new_rfq_id w) = Some rfq"
    by (simp add: ok(1))
  moreover from this ok(3)
  have "get_rfq (new_rfq_id w) (snd (handle w c st)) = Reply 200 rfq"
    by (simp add: get_rfq_def store_get_def)
  ultimately show ?thesis
    using ok(2) by auto
qed

theorem normalized_rfq_round_trip_witness:
  "normalization (PostParseRequest demo_body)
   \<and> fst (handle demo_world (PostParseRequest demo_body) empty_stores) = Reply 200 demo_parsed_rfq
   \<and> normalization (PostUploadSpecs [bom_xlsx, scope_txt] (JObj []))
   \<and> fst (handle demo_world (PostUploadSpecs [bom_xlsx, scope_txt] (JObj [])) empty_stores)
       = Reply 200 demo_upload_rfq
   \<and> field demo_parsed_rfq (ascii ''rfq_id'') = JStr (ascii ''RFQ-1700000000000'')
   \<and> fst (handle demo_world (GetRfq (ascii ''RFQ-1700000000000''))
          (snd (handle demo_world (PostParseRequest demo_body) empty_stores)))
       = Reply 200 demo_parsed_rfq
   \<and> field demo_upload_rfq (ascii ''rfq_id'') = JStr (ascii ''RFQ-1700000000000'')
   \<and> fst (handle demo_world (GetRfq (ascii ''RFQ-1700000000000''))
          (snd (handle demo_world (PostUploadSpecs [bom_xlsx, scope_txt] (JObj []))
                  empty_stores)))
       = Reply 200 demo_upload_rfq"
proof -
  have n1: "normalization (PostParseRequest demo_body)"
    and n2: "normalization (PostUploadSpecs [bom_xlsx, scope_txt] (JObj []))"
    by simp_all
  have h1: "fst (handle demo_world (PostParseRequest demo_body) empty_stores)
      = Reply 200 demo_parsed_rfq"
    by (simp add: demo_parse_request)
  have h2: "fst (handle demo_world (PostUploadSpecs [bom_xlsx, scope_txt] (JObj [])) empty_stores)
      = Reply 200 demo_upload_rfq"
    by (simp add: demo_upload_specs)
  have i1: "field demo_parsed_rfq (ascii ''rfq_id'') = JStr (ascii ''RFQ-1700000000000'')"
    by (simp add: demo_parsed_rfq_def)
  have i2: "field demo_upload_rfq (ascii ''rfq_id'') = JStr (ascii ''RFQ-1700000000000'')"
    by (simp add: demo_upload_rfq_def)
  from normalized_rfq_round_trip [OF n1 h1, of demo_world] obtain rid1 where
    "field demo_parsed_rfq (ascii ''rfq_id'') = JStr rid1"
    and "handle demo_world (GetRfq rid1)
           (snd (handle demo_world (PostParseRequest demo_body) empty_stores))
         = (Reply 200 demo_parsed_rfq,
            snd (handle demo_world (PostParseRequest demo_body) empty_stores))"
    by blast
  with i1 have r1: "fst (handle demo_world (GetRfq (ascii ''RFQ-1700000000000''))
          (snd (handle demo_world (PostParseRequest demo_body) empty_stores)))
       = Reply 200 demo_parsed_rfq"
    by (simp del: handle.simps)
  from normalized_rfq_round_trip [OF n2 h2, of demo_world] obtain rid2 where
    "field demo_upload_rfq (ascii ''rfq_id'') = JStr rid2"
    and "handle demo_world (GetRfq rid2)
           (snd (handle demo_world (PostUploadSpecs [bom_xlsx, scope_txt] (JObj []))
                   empty_stores))
         = (Reply 200 demo_upload_rfq,
            snd (handle demo_world (PostUploadSpecs [bom_xlsx, scope_txt] (JObj []))
                   empty_stores))"
    by blast
  with i2 have r2: "fst (handle demo_world (GetRfq (ascii ''RFQ-1700000000000''))
          (snd (handle demo_world (PostUploadSpecs [bom_xlsx, scope_txt] (JObj []))
                  empty_stores)))
       = Reply 200 demo_upload_rfq"
    by (simp del: handle.simps)
  from n1 n2 h1 h2 i1 i2 r1 r2 show ?thesis by blast
qed

text \<open>
  Claim C7. On both routes the \<^verbatim>\<open>project_name\<close> of the RFQ a successful call
  returns is the specification's precedence applied to the name in the collaborator's
  parsed answer and to the \<^verbatim>\<open>project_name\<close> of the request body: the extracted name
  if present, else the hint if present, else \<^verbatim>\<open>Untitled RFQ\<close>. On the free-text
  route the parsed answer is \<^verbatim>\<open>JSON.parse\<close> of the content the collaborator returned
  for the request of that route; on the upload route it is what
  \<^verbatim>\<open>parseSpecsToLineItems\<close> returned for the combined text.
\<close>

theorem project_name_precedence:
  "(fst (parse_request w b st) = Reply 200 rfq \<longrightarrow>
      (\<exists>completion parsed.
          chat w (parse_request_chat w (destructure b ''text'') (destructure b ''project_name''))
            = Inr completion
        \<and> JSON_parse w completion = Inr parsed
        \<and> field rfq (ascii ''project_name'')
            = spec_project_name (field parsed (ascii ''project_name''))
                (destructure b ''project_name'')))
   \<and> (fst (upload_specs w' files b' st') = Reply 200 rfq' \<longrightarrow>
      (\<exists>parsed.
          parseSpecsToLineItems w' (combinedText w' files) (destructure b' ''project_name'')
            = Inr parsed
        \<and> field rfq' (ascii ''project_name'')
            = spec_project_name (field parsed (ascii ''project_name''))
                (destructure b' ''project_name'')))"
proof (intro conjI impI)
  assume "fst (parse_request w b st) = Reply 200 rfq"
  from parse_request_ok(3) [OF this]
  show "\<exists>completion parsed.
          chat w (parse_request_chat w (destructure b ''text'') (destructure b ''project_name''))
            = Inr completion
        \<and> JSON_parse w completion = Inr parsed
        \<and> field rfq (ascii ''project_name'')
            = spec_project_name (field parsed (ascii ''project_name''))
                (destructure b ''project_name'')"
    by (simp add: js_or_precedence)
next
  assume ok: "fst (upload_specs w' files b' st') = Reply 200 rfq'"
  with upload_specs_ok [OF ok]
  have "fst (normalize_upload w' (combinedText w' files) (destructure b' ''project_name'') st')
          = Reply 200 rfq'"
    by simp
  from normalize_upload_ok(3) [OF this]
  show "\<exists>parsed.
          parseSpecsToLineItems w' (combinedText w' files) (destructure b' ''project_name'')
            = Inr parsed
        \<and> field rfq' (ascii ''project_name'')
            = spec_project_name (field parsed (ascii ''project_name''))
                (destructure b' ''project_name'')"
    by (simp add: js_or_precedence)
qed

theorem project_name_precedence_witness:
  "fst (parse_request named_world demo_body empty_stores) = Reply 200 named_rfq
   \<and> field named_rfq (ascii ''project_name'')
       = spec_project_name (JStr (ascii ''Refinery revamp'')) (JStr (ascii ''Plant A''))
   \<and> spec_project_name (JStr (ascii ''Refinery revamp'')) (JStr (ascii ''Plant A''))
       = JStr (ascii ''Refinery revamp'')
   \<and> fst (parse_request demo_world demo_body empty_stores) = Reply 200 demo_parsed_rfq
   \<and> field demo_parsed_rfq (ascii ''project_name'')
       = spec_project_name JNull (JStr (ascii ''Plant A''))
   \<and> spec_project_name JNull (JStr (ascii ''Plant A'')) = JStr (ascii ''Plant A'')
   \<and> fst (upload_specs demo_world [bom_xlsx, scope_txt] (JObj []) empty_stores)
       = Reply 200 demo_upload_rfq
   \<and> field demo_upload_rfq (ascii ''project_name'') = spec_project_name JNull JUndefined
   \<and> spec_project_name JNull JUndefined = JStr (ascii ''Untitled RFQ'')"
proof -
  have h1: "fst (parse_request demo_world demo_body empty_stores) = Reply 200 demo_parsed_rfq"
    by (simp add: demo_parse_request)
  have h2: "fst (upload_specs demo_world [bom_xlsx, scope_txt] (JObj []) empty_stores)
      = Reply 200 demo_upload_rfq"
    by (simp add: demo_upload_specs)
  have pa: "\<And>c parsed. JSON_parse demo_world c = Inr parsed \<Longrightarrow> parsed = pipe_answer"
    by (simp add: demo_world_def)
  have ps: "\<And>t h parsed. parseSpecsToLineItems demo_world t h = Inr parsed \<Longrightarrow> parsed = pipe_answer"
    by (simp add: parseSpecsToLineItems_def demo_world_def)
  have ex: "field pipe_answer (ascii ''project_name'') = JNull"
    by (simp add: pipe_answer_def)
  have hint1: "destructure demo_body ''project_name'' = JStr (ascii ''Plant A'')"
    by (simp add: destructure_def demo_body_def js_or_def)
  have hint2: "destructure (JObj []) ''project_name'' = JUndefined"
    by (simp add: destructure_def js_or_def)
  note both = project_name_precedence
    [of demo_world demo_body empty_stores demo_parsed_rfq
        demo_world "[bom_xlsx, scope_txt]" "JObj []" empty_stores demo_upload_rfq]
  from both h1 obtain completion parsed where
    "JSON_parse demo_world completion = Inr parsed"
    and n1: "field demo_parsed_rfq (ascii ''project_name'')
      = spec_project_name (field parsed (ascii ''project_name''))
          (destructure demo_body ''project_name'')"
    by blast
  from pa [OF this(1)] n1
  have r1: "field demo_parsed_rfq (ascii ''project_name'')
      = spec_project_name JNull (JStr (ascii ''Plant A''))"
    by (simp add: ex hint1)
  from both h2 obtain parsed' where
    "parseSpecsToLineItems demo_world (combinedText demo_world [bom_xlsx, scope_txt])
       (destructure (JObj []) ''project_name'') = Inr parsed'"
    and n2: "field demo_upload_rfq (ascii ''project_name'')
      = spec_project_name (field parsed' (ascii ''project_name''))
          (destructure (JObj []) ''project_name'')"
    by blast
  from ps [OF this(1)] n2
  have r2: "field demo_upload_rfq (ascii ''project_name'') = spec_project_name JNull JUndefined"
    by (simp add: ex hint2)
  have h0: "fst (parse_request named_world demo_body empty_stores) = Reply 200 named_rfq"
    by (simp add: named_parse_request)
  have pn: "\<And>c parsed. JSON_parse named_world c = Inr parsed \<Longrightarrow> parsed = named_answer"
    by (simp add: named_world_def)
  from project_name_precedence [of named_world demo_body empty_stores named_rfq] h0
  obtain completion0 parsed0 where
    "JSON_parse named_world completion0 = Inr parsed0"
    and n0: "field named_rfq (ascii ''project_name'')
      = spec_project_name (field parsed0 (ascii ''project_name''))
          (destructure demo_body ''project_name'')"
    by blast
  from pn [OF this(1)] n0
  have r0: "field named_rfq (ascii ''project_name'')
      = spec_project_name (JStr (ascii ''Refinery revamp'')) (JStr (ascii ''Plant A''))"
    by (simp add: named_answer_def hint1)
  show ?thesis
    using h0 h1 h2 r0 r1 r2 by (simp add: spec_project_name_def)
qed

text \<open>
  Claim C2 fails as stated. The id is \<^verbatim>\<open>"RFQ-" + Date.now()\<close> and nothing else, so two
  calls whose clock reads the same millisecond get the same id: here two free-text requests
  with different texts are normalized one after the other at clock 1700000000000, both
  succeed, both return the id \<^verbatim>\<open>RFQ-1700000000000\<close>, and the registry then holds the
  second RFQ under that id.
\<close>

theorem rfq_id_collision:
  "fst (handle demo_world (PostParseRequest demo_body) empty_stores) = Reply 200 demo_parsed_rfq
   \<and> fst (handle demo_world (PostParseRequest demo_body2)
          (snd (handle demo_world (PostParseRequest demo_body) empty_stores)))
       = Reply 200 demo_parsed_rfq2
   \<and> field demo_parsed_rfq (ascii ''rfq_id'') = JStr (ascii ''RFQ-1700000000000'')
   \<and> field demo_parsed_rfq2 (ascii ''rfq_id'') = JStr (ascii ''RFQ-1700000000000'')
   \<and> demo_parsed_rfq \<noteq> demo_parsed_rfq2
   \<and> get_rfq (ascii ''RFQ-1700000000000'')
        (snd (handle demo_world (PostParseRequest demo_body2)
          (snd (handle demo_world (PostParseRequest demo_body) empty_stores))))
       = Reply 200 demo_parsed_rfq2"
  by (simp add: demo_parse_request demo_parse_request2 get_rfq_def store_get_def)
    (simp add: demo_parsed_rfq_def demo_parsed_rfq2_def)

text \<open>
  Claim C2 as amended: the ids that two successful normalization calls return, by either
  route and on any registries, are equal exactly when the two calls read the same value
  from the clock. So calls that read different values of \<^verbatim>\<open>Date.now()\<close> return
  distinct ids.
\<close>

theorem rfq_ids_equal_iff_same_clock:
  assumes "normalization c1" and "normalization c2"
    and "fst (handle w1 c1 st1) = Reply 200 rfq1"
    and "fst (handle w2 c2 st2) = Reply 200 rfq2"
  shows "field rfq1 (ascii ''rfq_id'') = field rfq2 (ascii ''rfq_id'')
           \<longleftrightarrow> Date_now w1 = Date_now w2"
  using normalization_ok(2) [OF assms(1,3)] normalization_ok(2) [OF assms(2,4)]
  by (simp add: new_rfq_id_eq_iff)

theorem rfq_ids_equal_iff_same_clock_witness:
  "normalization (PostUploadSpecs [bom_xlsx, scope_txt] (JObj []))
   \<and> normalization (PostParseRequest demo_body2)
   \<and> fst (handle demo_world (PostUploadSpecs [bom_xlsx, scope_txt] (JObj [])) empty_stores)
       = Reply 200 demo_upload_rfq
   \<and> fst (handle later_world (PostParseRequest demo_body2)
          (snd (handle demo_world (PostUploadSpecs [bom_xlsx, scope_txt] (JObj [])) empty_stores)))
       = Reply 200 later_rfq
   \<and> Date_now demo_world \<noteq> Date_now later_world
   \<and> field demo_upload_rfq (ascii ''rfq_id'') \<noteq> field later_rfq (ascii ''rfq_id'')"
proof -
  have n1: "normalization (PostUploadSpecs [bom_xlsx, scope_txt] (JObj []))"
    and n2: "normalization (PostParseRequest demo_body2)"
    by simp_all
  have h1: "fst (handle demo_world (PostUploadSpecs [bom_xlsx, scope_txt] (JObj [])) empty_stores)
      = Reply 200 demo_upload_rfq"
    by (simp add: demo_upload_specs)
  have h2: "fst (handle later_world (PostParseRequest demo_body2)
          (snd (handle demo_world (PostUploadSpecs [bom_xlsx, scope_txt] (JObj [])) empty_stores)))
       = Reply 200 later_rfq"
    by (simp add: later_parse_request)
  have clock: "Date_now demo_world \<noteq> Date_now later_world"
    by (simp add: later_world_def demo_world_def)
  from rfq_ids_equal_iff_same_clock [OF n1 n2 h1 h2] clock
  have "field demo_upload_rfq (ascii ''rfq_id'') \<noteq> field later_rfq (ascii ''rfq_id'')"
    by simp
  with n1 n2 h1 h2 clock show ?thesis by blast
qed

section \<open>Claims about the Clarification Engine and the Negotiation Advisor\<close>

text \<open>
  Claim C4. Whatever the request body (the RFQ, the history, the latest message) and
  whatever the collaborator does (an answer, an empty answer, an exception), a clarify call
  returns the registries it was given: the RFQ registry, every RFQ in it and the quote
  ledger are as before. The same holds through the route, and for any number of clarify
  calls in sequence.
\<close>

theorem clarify_is_pure:
  "snd (clarify w b st) = st
   \<and> snd (handle w (PostClarify b) st) = st
   \<and> run (map (\<lambda>(w, b). (w, PostClarify b)) calls) st = st"
  by (simp add: clarify_frame run_clarify_frame)

theorem clarify_is_pure_witness:
  "clarify demo_world clarify_body demo_stores
     = (Reply 200 (JObj [(ascii ''assistant_message'', JStr (ascii ''{}''))]), demo_stores)
   \<and> clarify down_world clarify_body demo_stores
     = (Reply 500 (JObj [(ascii ''error'', JStr (ascii ''Clarify failed'')),
                         (ascii ''detail'', JStr (ascii ''Request timed out.''))]), demo_stores)
   \<and> run [(demo_world, PostClarify clarify_body), (down_world, PostClarify clarify_body)]
        demo_stores = demo_stores"
proof -
  from clarify_is_pure
    [of demo_world clarify_body demo_stores
        "[(demo_world, clarify_body), (down_world, clarify_body)]"]
  have "run [(demo_world, PostClarify clarify_body), (down_world, PostClarify clarify_body)]
        demo_stores = demo_stores"
    by (simp del: run.simps handle.simps)
  then show ?thesis
    by (simp add: demo_clarify down_clarify)
qed

text \<open>
  Claim C5, on an RFQ as the Normalizer produces it. \<^verbatim>\<open>parse-request\<close> returns the RFQ
  \<open>demo_parsed_rfq\<close>, whose one line item is under \<^verbatim>\<open>line_items\<close> with the fields
  \<^verbatim>\<open>raw_description\<close>, \<^verbatim>\<open>material_grade\<close>, \<^verbatim>\<open>quantity\<close> and \<^verbatim>\<open>unit\<close>. The
  context the Negotiation Advisor builds for it has the RFQ id and the quote, but its
  \<^verbatim>\<open>items\<close> array is empty: the advisor reads \<^verbatim>\<open>rfq.items\<close> only, so nothing
  of the line item reaches the collaborator. The Clarification Engine, on the same RFQ,
  falls back to \<^verbatim>\<open>line_items\<close> and to the second name of each field, and its summary
  carries the item.
\<close>

theorem negotiate_context_drops_line_items:
  "fst (parse_request demo_world demo_body empty_stores) = Reply 200 demo_parsed_rfq
   \<and> field demo_parsed_rfq (ascii ''line_items'') = JArr [pipe_item]
   \<and> negotiate_context demo_parsed_rfq quote_a = Inr (JObj
       [(ascii ''rfq'', JObj
          [(ascii ''id'', JStr (ascii ''RFQ-1700000000000'')),
           (ascii ''commercial'', JUndefined),
           (ascii ''items'', JArr [])]),
        (ascii ''quote'', quote_a)])
   \<and> clarify_summary demo_parsed_rfq = Inr (JObj
       [(ascii ''rfq_id'', JStr (ascii ''RFQ-1700000000000'')),
        (ascii ''project_name'', JStr (ascii ''Plant A'')),
        (ascii ''commercial'', JUndefined),
        (ascii ''line_items'', JArr [JObj
           [(ascii ''line'', JUndefined),
            (ascii ''description'', JStr (ascii ''2-inch SS316 seamless pipe'')),
            (ascii ''grade'', JStr (ascii ''SS316'')),
            (ascii ''quantity'', JNum 20),
            (ascii ''uom'', JStr (ascii ''pcs''))]])])"
  by (simp add: demo_parse_request demo_negotiate_context demo_clarify_summary)
    (simp add: demo_parsed_rfq_def)

section \<open>Claims about the text sent to the collaborator\<close>

text \<open>
  Claim C1, on the free-text route with a text of 12,001 code units (the letter
  \<^verbatim>\<open>a\<close> repeated). The request \<^verbatim>\<open>parse-request\<close> sends to the collaborator has the
  whole text between the triple quotes of its user message: all 12,001 units and no
  truncation marker, where the claim has the 12,000-unit prefix followed by the marker,
  which is what \<open>truncated\<close> gives for this text and what the upload route sends. The
  call succeeds on this input.
\<close>

theorem parse_request_sends_untruncated_text:
  \<open>messages (parse_request_chat demo_world (JStr (replicate 12001 0x0061)) JUndefined)
     = [ChatMessage (ascii ''system'') (JStr parse_request_systemPrompt),
        ChatMessage (ascii ''user'') (JStr
          (ascii ''\<newline>Buyer RFQ text:\<newline>"""'' @ replicate 12001 0x0061
           @ ascii ''"""\<newline>\<newline>Provided project_name (may be null): null\<newline>\<newline>Extract line_items and commercial terms.\<newline>''))]
   \<and> truncated (replicate 12001 0x0061)
       = replicate 12000 0x0061 @ ascii ''\<newline>\<newline>[TRUNCATED]''
   \<and> replicate 12001 0x0061 \<noteq> truncated (replicate 12001 0x0061)
   \<and> status (fst (parse_request demo_world
         (JObj [(ascii ''text'', JStr (replicate 12001 0x0061))]) empty_stores)) = 200\<close>
proof -
  have a: \<open>messages (parse_request_chat demo_world (JStr (replicate 12001 0x0061)) JUndefined)
     = [ChatMessage (ascii ''system'') (JStr parse_request_systemPrompt),
        ChatMessage (ascii ''user'') (JStr
          (ascii ''\<newline>Buyer RFQ text:\<newline>"""'' @ replicate 12001 0x0061
           @ ascii ''"""\<newline>\<newline>Provided project_name (may be null): null\<newline>\<newline>Extract line_items and commercial terms.\<newline>''))]\<close>
    by (simp add: parse_request_chat_def parse_request_userPrompt_def js_or_def
        ascii_append [symmetric])
  have b: "truncated (replicate 12001 (0x0061 :: 16 word))
       = replicate 12000 0x0061 @ ascii ''\<newline>\<newline>[TRUNCATED]''"
    by (simp add: truncated_long)
  have "length (replicate 12001 (0x0061 :: 16 word))
      \<noteq> length (replicate 12000 (0x0061 :: 16 word) @ ascii ''\<newline>\<newline>[TRUNCATED]'')"
    by (simp)
  then have c: "replicate 12001 (0x0061 :: 16 word) \<noteq> truncated (replicate 12001 0x0061)"
    unfolding b by metis
  have d: "status (fst (parse_request demo_world
         (JObj [(ascii ''text'', JStr (replicate 12001 0x0061))]) empty_stores)) = 200"
    by (simp add: long_text_parse_request)
  from a b c d show ?thesis by blast
qed

section \<open>Claims about the upload batch\<close>

text \<open>
  Claim C9. The texts the loop of \<^verbatim>\<open>upload-specs\<close> collects are, file by file and in
  order, the text of each file whose extraction returned a text that is not blank; a file
  whose extraction threw, or returned a blank text, contributes nothing and the loop goes
  on with the files after it. A batch that is not empty always goes on to the
  Normalizer with the combined text. When no file of the batch yields a usable text, the
  combined text is the fallback text, one \<^verbatim>\<open>FILE: ... (no readable content
  extracted; ...)\<close> line per uploaded file joined by newlines, and the request is answered
  by normalizing that text: with status 200 and the fallback text as
  \<^verbatim>\<open>original_text\<close> whenever the collaborator returns a parsed answer.
\<close>

theorem extraction_failures_stay_local:
  "collect_texts w files [] =
     concat (map (\<lambda>file. case extractTextFromFile w file of
                            Inl err \<Rightarrow> []
                          | Inr text \<Rightarrow> if js_trim text = [] then [] else [text]) files)
   \<and> (files \<noteq> [] \<longrightarrow>
        upload_specs w files b st
          = normalize_upload w (combinedText w files) (destructure b ''project_name'') st)
   \<and> (files \<noteq> [] \<longrightarrow>
       (\<forall>file \<in> set files. \<forall>text.
           extractTextFromFile w file = Inr text \<longrightarrow> js_trim text = []) \<longrightarrow>
         combinedText w files = fallbackText files
       \<and> fallbackText files = js_join (ascii ''\<newline>'') (map fallback_line files)
       \<and> length (map fallback_line files) = length files
       \<and> upload_specs w files b st
           = normalize_upload w (fallbackText files) (destructure b ''project_name'') st
       \<and> (\<forall>parsed extracted.
             parseSpecsToLineItems w (fallbackText files) (destructure b ''project_name'')
               = Inr parsed \<longrightarrow>
             field_or_throw parsed ''project_name'' = Inr extracted \<longrightarrow>
             (\<exists>rfq. fst (upload_specs w files b st) = Reply 200 rfq
                  \<and> field rfq (ascii ''original_text'') = JStr (fallbackText files))))"
proof (intro conjI impI)
  show "collect_texts w files [] =
     concat (map (\<lambda>file. case extractTextFromFile w file of
                            Inl err \<Rightarrow> []
                          | Inr text \<Rightarrow> if js_trim text = [] then [] else [text]) files)"
    by (rule collect_texts_concat)
next
  assume "files \<noteq> []"
  then show "upload_specs w files b st
      = normalize_upload w (combinedText w files) (destructure b ''project_name'') st"
    by (simp add: upload_specs_def)
next
  assume ne: "files \<noteq> []"
    and un: "\<forall>file \<in> set files. \<forall>text.
           extractTextFromFile w file = Inr text \<longrightarrow> js_trim text = []"
  have none: "collect_texts w files [] = []"
    using un by (rule collect_texts_unusable)
  show fb: "combinedText w files = fallbackText files"
    by (simp add: combinedText_def none)
  show "fallbackText files = js_join (ascii ''\<newline>'') (map fallback_line files)"
    by (simp add: fallbackText_def)
  show "length (map fallback_line files) = length files"
    by simp
  show up: "upload_specs w files b st
      = normalize_upload w (fallbackText files) (destructure b ''project_name'') st"
    using ne by (simp add: upload_specs_def fb)
  show "\<forall>parsed extracted.
          parseSpecsToLineItems w (fallbackText files) (destructure b ''project_name'')
            = Inr parsed \<longrightarrow>
          field_or_throw parsed ''project_name'' = Inr extracted \<longrightarrow>
          (\<exists>rfq. fst (upload_specs w files b st) = Reply 200 rfq
               \<and> field rfq (ascii ''original_text'') = JStr (fallbackText files))"
    unfolding up by (simp add: normalize_upload_def Let_def)
qed

theorem extraction_failures_stay_local_witness:
  "collect_texts demo_world [bom_xlsx, scope_txt] []
     = [ascii ''FILE: scope.txt\<newline>\<newline>20 pcs pipe'']
   \<and> [bom_xlsx, drawings_xls] \<noteq> []
   \<and> collect_texts demo_world [bom_xlsx, drawings_xls] [] = []
   \<and> combinedText demo_world [bom_xlsx, drawings_xls]
       = ascii ''FILE: bom.xlsx (no readable content extracted; likely scanned or unsupported format)\<newline>FILE: Drawings.XLS (no readable content extracted; likely scanned or unsupported format)''
   \<and> fst (upload_specs demo_world [bom_xlsx, drawings_xls] (JObj []) empty_stores)
       = Reply 200 demo_fallback_rfq"
proof -
  note inst = extraction_failures_stay_local
    [of demo_world "[bom_xlsx, drawings_xls]" "JObj []" empty_stores]
  have ne: "[bom_xlsx, drawings_xls] \<noteq> []" by simp
  have un: "\<forall>file \<in> set [bom_xlsx, drawings_xls]. \<forall>text.
      extractTextFromFile demo_world file = Inr text \<longrightarrow> js_trim text = []"
    by (simp add: demo_extract_bom demo_extract_drawings)
  have hint: "destructure (JObj []) ''project_name'' = JUndefined"
    by (simp add: destructure_def js_or_def)
  from inst ne un have fb: "combinedText demo_world [bom_xlsx, drawings_xls]
      = fallbackText [bom_xlsx, drawings_xls]"
    by blast
  from inst ne un have "upload_specs demo_world [bom_xlsx, drawings_xls] (JObj []) empty_stores
      = normalize_upload demo_world (fallbackText [bom_xlsx, drawings_xls])
          (destructure (JObj []) ''project_name'') empty_stores"
    by blast
  then have ok: "fst (upload_specs demo_world [bom_xlsx, drawings_xls] (JObj []) empty_stores)
      = Reply 200 demo_fallback_rfq"
    by (simp add: hint demo_normalize_any demo_fallback demo_fallback_rfq_def)
  from ne fb ok show ?thesis
    by (simp add: demo_collect_mixed demo_collect_unreadable demo_fallback
        del: collect_texts.simps)
qed

end
